theory Spec2Isabelle
  imports Complex_Main
begin

section \<open>Python values and built-ins used by \<open>TransfermarktBase\<close>\<close>

text \<open>
  The model follows \<^verbatim>\<open>src/app/services/base.py\<close>. A Python \<^verbatim>\<open>str\<close> is a
  \<^typ>\<open>string\<close>, one \<^typ>\<open>char\<close> per code point (code points below 256). Exceptions are
  values of the type \<open>error\<close>; a method that may raise returns \<open>error + 'a\<close>.
  \<open>XPathEvalError\<close> is the exception of the XPath engine for a path it cannot evaluate.
\<close>

datatype error =
  IndexError
| ValueError
| TypeError
| AttributeError
| XPathEvalError string
| HTTPException int string

text \<open>
  One match of an XPath query: a text value (an attribute value or a text node), or an
  element node, identified by its number in document order.
\<close>

datatype item = Text string | Node nat

text \<open>A Python \<^verbatim>\<open>float\<close>, the form in which the engine returns an XPath number.\<close>

datatype pyfloat = Finite real | PosInf | NegInf | NaN

text \<open>
  What \<^verbatim>\<open>self.page.xpath(xpath)\<close> returns: the list of matches of a path that selects
  nodes, or the single \<^verbatim>\<open>str\<close>, \<^verbatim>\<open>float\<close> or \<^verbatim>\<open>bool\<close> of a path that computes a
  string, a number or a boolean.
\<close>

datatype xpath_result =
  Matches "item list"
| StringResult string
| NumberResult pyfloat
| BooleanResult bool

text \<open>
  What the local variable \<^verbatim>\<open>element\<close> of \<^verbatim>\<open>get_text_by_xpath\<close> holds from line 126 on:
  the list of trimmed matches, a single \<^verbatim>\<open>str\<close> (a string-valued query, or one match
  selected by \<^verbatim>\<open>element[iloc]\<close>), or the \<^verbatim>\<open>float\<close> or \<^verbatim>\<open>bool\<close> of the query.
\<close>

datatype element = PyList "string list" | PyStr string | PyFloat pyfloat | PyBool bool

text \<open>
  The truth value of a query result, as tested by \<^verbatim>\<open>not element\<close>: the empty list, the
  empty \<^verbatim>\<open>str\<close>, zero and \<^verbatim>\<open>False\<close> are false.
\<close>

definition truthy :: "xpath_result \<Rightarrow> bool" where
  "truthy r =
     (case r of
        Matches ms \<Rightarrow> ms \<noteq> []
      | StringResult s \<Rightarrow> s \<noteq> []
      | NumberResult x \<Rightarrow> x \<noteq> Finite 0
      | BooleanResult b \<Rightarrow> b)"

text \<open>
  \<^verbatim>\<open>xs[i]\<close> on a list or a \<^verbatim>\<open>str\<close>: a negative index counts from the end, an index
  out of range raises \<^verbatim>\<open>IndexError\<close>. \<^verbatim>\<open>element[i]\<close> on a \<^verbatim>\<open>str\<close> gives the
  one-character \<^verbatim>\<open>str\<close> at that position; a \<^verbatim>\<open>float\<close> or a \<^verbatim>\<open>bool\<close> is not
  subscriptable and raises \<^verbatim>\<open>TypeError\<close>.
\<close>

definition index_seq :: "'a list \<Rightarrow> int \<Rightarrow> error + 'a" where
  "index_seq xs i =
     (let k = (if i < 0 then i + int (length xs) else i)
      in if k < 0 \<or> int (length xs) \<le> k then Inl IndexError else Inr (xs ! nat k))"

definition getitem :: "element \<Rightarrow> int \<Rightarrow> error + string" where
  "getitem e i =
     (case e of
        PyList xs \<Rightarrow> index_seq xs i
      | PyStr s \<Rightarrow> (case index_seq s i of Inl err \<Rightarrow> Inl err | Inr c \<Rightarrow> Inr [c])
      | PyFloat x \<Rightarrow> Inl TypeError
      | PyBool b \<Rightarrow> Inl TypeError)"

text \<open>
  \<^verbatim>\<open>element[lo:hi]\<close>: a bound that is absent is the end of the sequence on its side, a
  negative bound counts from the end, and every bound is clamped into the sequence; a
  slice of a list or a \<^verbatim>\<open>str\<close> never raises, a slice of a \<^verbatim>\<open>float\<close> or a \<^verbatim>\<open>bool\<close>
  raises \<^verbatim>\<open>TypeError\<close>.
\<close>

definition clamp_index :: "nat \<Rightarrow> int \<Rightarrow> nat" where
  "clamp_index n i =
     (let j = (if i < 0 then i + int n else i)
      in if j < 0 then 0 else if int n < j then n else nat j)"

definition slice_seq :: "'a list \<Rightarrow> int option \<Rightarrow> int option \<Rightarrow> 'a list" where
  "slice_seq xs lo hi =
     (let n = length xs;
          a = (case lo of None \<Rightarrow> 0 | Some i \<Rightarrow> clamp_index n i);
          b = (case hi of None \<Rightarrow> n | Some i \<Rightarrow> clamp_index n i)
      in take (b - a) (drop a xs))"

definition getslice :: "element \<Rightarrow> int option \<Rightarrow> int option \<Rightarrow> error + element" where
  "getslice e lo hi =
     (case e of
        PyList xs \<Rightarrow> Inr (PyList (slice_seq xs lo hi))
      | PyStr s \<Rightarrow> Inr (PyStr (slice_seq s lo hi))
      | PyFloat x \<Rightarrow> Inl TypeError
      | PyBool b \<Rightarrow> Inl TypeError)"

text \<open>
  \<^verbatim>\<open>for e in element\<close>: the items of a list, the characters of a \<^verbatim>\<open>str\<close>; a \<^verbatim>\<open>float\<close>
  or a \<^verbatim>\<open>bool\<close> is not iterable and raises \<^verbatim>\<open>TypeError\<close>. \<open>iterate_result\<close> is the same
  loop over a query result.
\<close>

definition iterate :: "element \<Rightarrow> error + string list" where
  "iterate e =
     (case e of
        PyList xs \<Rightarrow> Inr xs
      | PyStr s \<Rightarrow> Inr (map (\<lambda>c. [c]) s)
      | PyFloat x \<Rightarrow> Inl TypeError
      | PyBool b \<Rightarrow> Inl TypeError)"

definition iterate_result :: "xpath_result \<Rightarrow> error + item list" where
  "iterate_result r =
     (case r of
        Matches ms \<Rightarrow> Inr ms
      | StringResult s \<Rightarrow> Inr (map (\<lambda>c. Text [c]) s)
      | NumberResult x \<Rightarrow> Inl TypeError
      | BooleanResult b \<Rightarrow> Inl TypeError)"

text \<open>\<^verbatim>\<open>sep.join(xs)\<close>.\<close>

fun join :: "string \<Rightarrow> string list \<Rightarrow> string" where
  "join sep [] = []"
| "join sep [x] = x"
| "join sep (x # y # ys) = x @ sep @ join sep (y # ys)"

text \<open>\<^verbatim>\<open>s.split(sep)\<close> for a one-character separator: never an empty list.\<close>

fun split :: "string \<Rightarrow> char \<Rightarrow> string list" where
  "split [] sep = [[]]"
| "split (c # cs) sep =
     (if c = sep then [] # split cs sep
      else (case split cs sep of [] \<Rightarrow> [[c]] | w # ws \<Rightarrow> (c # w) # ws))"

text \<open>
  \<^verbatim>\<open>s.strip()\<close>: the whitespace of \<^verbatim>\<open>str.isspace\<close> is removed at both ends. Among the
  code points below 256 these are the characters 9 to 13, 28 to 32, 133 and 160.
\<close>

definition isspace :: "char \<Rightarrow> bool" where
  "isspace c = ((of_char c :: nat) \<in> {9, 10, 11, 12, 13, 28, 29, 30, 31, 32, 133, 160})"

definition strip :: "string \<Rightarrow> string" where
  "strip s = rev (dropWhile isspace (rev (dropWhile isspace s)))"

text \<open>
  \<^verbatim>\<open>int(s)\<close> on a \<^verbatim>\<open>str\<close>. The whitespace that \<^verbatim>\<open>int\<close> skips at both ends is narrower
  than that of \<^verbatim>\<open>strip\<close>: the characters 9 to 13 and 32, and the two spaces 133 and 160
  above the ASCII range; the separators 28 to 31 are not skipped, and make the literal
  invalid. Between the skipped ends stand one optional sign and then decimal digits, with
  single underscores allowed between digits. A literal of any other form raises
  \<^verbatim>\<open>ValueError\<close>, and so does one with more than 4300 digits (the interpreter's default
  limit \<^verbatim>\<open>sys.int_info.default_max_str_digits\<close>; leading zeros count, the sign and the
  underscores do not).
\<close>

definition int_isspace :: "char \<Rightarrow> bool" where
  "int_isspace c = ((of_char c :: nat) \<in> {9, 10, 11, 12, 13, 32, 133, 160})"

definition int_strip :: "string \<Rightarrow> string" where
  "int_strip s = rev (dropWhile int_isspace (rev (dropWhile int_isspace s)))"

definition isdigit :: "char \<Rightarrow> bool" where
  "isdigit c = (48 \<le> (of_char c :: nat) \<and> (of_char c :: nat) \<le> 57)"

definition max_str_digits :: nat where
  "max_str_digits = 4300"

fun parse_digits :: "nat \<Rightarrow> bool \<Rightarrow> string \<Rightarrow> nat option" where
  "parse_digits acc after_digit [] = (if after_digit then Some acc else None)"
| "parse_digits acc after_digit (c # cs) =
     (if isdigit c then parse_digits (10 * acc + (of_char c - 48)) True cs
      else if c = CHR ''_'' \<and> after_digit then parse_digits acc False cs
      else None)"

definition py_int :: "string \<Rightarrow> error + int" where
  "py_int s =
     (case int_strip s of
        [] \<Rightarrow> Inl ValueError
      | c # cs \<Rightarrow>
          (let negative = (c = CHR ''-'');
               body = (if c = CHR ''-'' \<or> c = CHR ''+'' then cs else c # cs)
           in case parse_digits 0 False body of
                None \<Rightarrow> Inl ValueError
              | Some n \<Rightarrow>
                  (if max_str_digits < length (filter isdigit body) then Inl ValueError
                   else Inr (if negative then - int n else int n))))"

section \<open>The instance\<close>

text \<open>
  The dataclass \<^verbatim>\<open>TransfermarktBase\<close>. The field \<^verbatim>\<open>page\<close> is \<^verbatim>\<open>None\<close> until a page has
  been parsed; a parsed page is represented by its query function, which gives for a
  path the value that \<^verbatim>\<open>self.page.xpath(xpath)\<close> returns or the exception it raises.
  Every method takes the instance and returns it with its result, so that an assignment
  to a field would show in the returned instance.
\<close>

record TransfermarktBase =
  URL :: string
  page :: "(string \<Rightarrow> error + xpath_result) option"
  response :: "string \<rightharpoonup> string"

text \<open>
  \<^verbatim>\<open>self.page.xpath(xpath)\<close>: on the \<^verbatim>\<open>None\<close> of an unset page the attribute lookup raises
  \<^verbatim>\<open>AttributeError\<close>.
\<close>

definition page_xpath :: "TransfermarktBase \<Rightarrow> string \<Rightarrow> error + xpath_result" where
  "page_xpath self xpath =
     (case page self of None \<Rightarrow> Inl AttributeError | Some tree \<Rightarrow> tree xpath)"

section \<open>\<^verbatim>\<open>make_request\<close>\<close>

record Response =
  status_code :: int
  reason :: string
  content :: string

text \<open>
  How the body of the \<^verbatim>\<open>try\<close> block ends: one of the three handled exceptions, or the
  response of \<^verbatim>\<open>requests.get\<close>. The network is the parameter \<open>requests_get\<close>, applied to
  the address, the headers and the timeout. \<open>make_request\<close> gives the value returned or
  the exception raised; the pacing delay before the call does not change either, and is
  in \<open>make_request_traced\<close> below.
\<close>

datatype outcome =
  TooManyRedirects
| ConnectionError
| OtherException string
| Returned Response

definition headers :: "(string \<times> string) list" where
  "headers =
     [(''User-Agent'',
        ''Mozilla/5.0 (Macintosh; Intel Mac OS X 10_15_7) '' @
        ''AppleWebKit/605.1.15 (KHTML, like Gecko) '' @
        ''Version/15.5 Safari/605.1.15''),
      (''Accept-Language'', ''en-US,en;q=0.9''),
      (''Referer'', ''https://www.google.com/''),
      (''Accept'', ''text/html,application/xhtml+xml,application/xml;q=0.9,*/*;q=0.8''),
      (''Connection'', ''keep-alive'')]"

definition make_request ::
  "(string \<Rightarrow> (string \<times> string) list \<Rightarrow> nat \<Rightarrow> outcome) \<Rightarrow> string option \<Rightarrow>
   TransfermarktBase \<Rightarrow> (error + Response) \<times> TransfermarktBase" where
  "make_request requests_get url_arg self =
     (let url = (case url_arg of None \<Rightarrow> URL self
                 | Some u \<Rightarrow> if u = [] then URL self else u)
      in case requests_get url headers 15 of
           TooManyRedirects \<Rightarrow>
             (Inl (HTTPException 404 (''Not found for url: '' @ url)), self)
         | ConnectionError \<Rightarrow>
             (Inl (HTTPException 500 (''Connection error for url: '' @ url)), self)
         | OtherException e \<Rightarrow>
             (Inl (HTTPException 500 (''Error for url: '' @ url @ ''. '' @ e)), self)
         | Returned resp \<Rightarrow>
             (if 400 \<le> status_code resp \<and> status_code resp < 500 then
                (Inl (HTTPException (status_code resp)
                   (''Client Error. '' @ reason resp @ '' for url: '' @ url)), self)
              else if 500 \<le> status_code resp \<and> status_code resp < 600 then
                (Inl (HTTPException (status_code resp)
                   (''Server Error. '' @ reason resp @ '' for url: '' @ url)), self)
              else (Inr resp, self)))"

text \<open>
  The same method with the calls it makes to the outside, in the order in which it makes
  them: \<^verbatim>\<open>time.sleep\<close> with its argument (line 46) and \<^verbatim>\<open>requests.get\<close> with its three
  arguments (line 48). The draw \<^verbatim>\<open>random.uniform(1.5, 3.0)\<close> is the parameter \<open>uniform\<close>
  applied to the two bounds. Both calls stand in the \<^verbatim>\<open>try\<close> block, the sleep first, and
  no handler and no branch after the block calls either again.
\<close>

datatype event =
  Sleep real
| Get string "(string \<times> string) list" nat

definition make_request_traced ::
  "(real \<Rightarrow> real \<Rightarrow> real) \<Rightarrow> (string \<Rightarrow> (string \<times> string) list \<Rightarrow> nat \<Rightarrow> outcome) \<Rightarrow>
   string option \<Rightarrow> TransfermarktBase \<Rightarrow>
   ((error + Response) \<times> TransfermarktBase) \<times> event list" where
  "make_request_traced uniform requests_get url_arg self =
     (let url = (case url_arg of None \<Rightarrow> URL self
                 | Some u \<Rightarrow> if u = [] then URL self else u);
          log_sleep = [Sleep (uniform (3 / 2) 3)];
          log_get = log_sleep @ [Get url headers 15]
      in case requests_get url headers 15 of
           TooManyRedirects \<Rightarrow>
             ((Inl (HTTPException 404 (''Not found for url: '' @ url)), self), log_get)
         | ConnectionError \<Rightarrow>
             ((Inl (HTTPException 500 (''Connection error for url: '' @ url)), self), log_get)
         | OtherException e \<Rightarrow>
             ((Inl (HTTPException 500 (''Error for url: '' @ url @ ''. '' @ e)), self),
              log_get)
         | Returned resp \<Rightarrow>
             (if 400 \<le> status_code resp \<and> status_code resp < 500 then
                ((Inl (HTTPException (status_code resp)
                   (''Client Error. '' @ reason resp @ '' for url: '' @ url)), self), log_get)
              else if 500 \<le> status_code resp \<and> status_code resp < 600 then
                ((Inl (HTTPException (status_code resp)
                   (''Server Error. '' @ reason resp @ '' for url: '' @ url)), self), log_get)
              else ((Inr resp, self), log_get)))"

section \<open>Extraction\<close>

text \<open>
  \<^verbatim>\<open>trim\<close> (\<^verbatim>\<open>app.utils.utils\<close>) is not among the source files; every method that calls
  it takes it as the parameter \<open>trim\<close>. It is applied to a match or to a \<^verbatim>\<open>str\<close> (as
  \<open>Text\<close>), and returns a \<^verbatim>\<open>str\<close> or raises.

  \<open>trim_all\<close> is the comprehension \<^verbatim>\<open>[trim(e) for e in elements]\<close> and \<open>trim_nonempty\<close> the
  comprehension \<^verbatim>\<open>[trim(e) for e in elements if trim(e)]\<close>: the first match on which
  \<^verbatim>\<open>trim\<close> raises ends the comprehension with that exception.
\<close>

fun trim_all :: "(item \<Rightarrow> error + string) \<Rightarrow> item list \<Rightarrow> error + string list" where
  "trim_all trim [] = Inr []"
| "trim_all trim (e # es) =
     (case trim e of
        Inl err \<Rightarrow> Inl err
      | Inr t \<Rightarrow>
          (case trim_all trim es of
             Inl err \<Rightarrow> Inl err
           | Inr ts \<Rightarrow> Inr (t # ts)))"

fun trim_nonempty :: "(item \<Rightarrow> error + string) \<Rightarrow> item list \<Rightarrow> error + string list" where
  "trim_nonempty trim [] = Inr []"
| "trim_nonempty trim (e # es) =
     (case trim e of
        Inl err \<Rightarrow> Inl err
      | Inr t \<Rightarrow>
          (case trim_nonempty trim es of
             Inl err \<Rightarrow> Inl err
           | Inr ts \<Rightarrow> Inr (if t \<noteq> [] then t # ts else ts)))"

definition get_list_by_xpath ::
  "(item \<Rightarrow> error + string) \<Rightarrow> string \<Rightarrow> bool option \<Rightarrow> TransfermarktBase \<Rightarrow>
   (error + string list) \<times> TransfermarktBase" where
  "get_list_by_xpath trim xpath remove_empty self =
     (case page_xpath self xpath of
        Inl err \<Rightarrow> (Inl err, self)
      | Inr elements \<Rightarrow>
          (case iterate_result elements of
             Inl err \<Rightarrow> (Inl err, self)
           | Inr es \<Rightarrow>
               (case (if remove_empty = Some True then trim_nonempty trim es
                      else trim_all trim es) of
                  Inl err \<Rightarrow> (Inl err, self)
                | Inr elements_valid \<Rightarrow>
                    (Inr (if elements_valid \<noteq> [] then elements_valid else []), self))))"

text \<open>
  Lines 125 to 138 of \<^verbatim>\<open>get_text_by_xpath\<close>: the trimming of a list of matches and the
  four \<^verbatim>\<open>if\<close> statements on \<^verbatim>\<open>iloc\<close>, \<^verbatim>\<open>iloc_from\<close> and \<^verbatim>\<open>iloc_to\<close>, in the order of
  the source. The result is the value of \<^verbatim>\<open>element\<close> on reaching the test of
  \<^verbatim>\<open>join_str\<close>, or the exception raised on the way.
\<close>

definition shape_element ::
  "(item \<Rightarrow> error + string) \<Rightarrow> xpath_result \<Rightarrow> int option \<Rightarrow> int option \<Rightarrow> int option \<Rightarrow>
   error + element" where
  "shape_element trim element0 iloc iloc_from iloc_to =
     (case (case element0 of
              Matches es \<Rightarrow>
                (case trim_nonempty trim es of
                   Inl err \<Rightarrow> Inl err | Inr ts \<Rightarrow> Inr (PyList ts))
            | StringResult s \<Rightarrow> Inr (PyStr s)
            | NumberResult x \<Rightarrow> Inr (PyFloat x)
            | BooleanResult b \<Rightarrow> Inr (PyBool b)) of
        Inl err \<Rightarrow> Inl err
      | Inr element1 \<Rightarrow>
          (case (case iloc of
                   None \<Rightarrow> Inr element1
                 | Some i \<Rightarrow>
                     (case getitem element1 i of
                        Inl err \<Rightarrow> Inl err | Inr s \<Rightarrow> Inr (PyStr s))) of
             Inl err \<Rightarrow> Inl err
           | Inr element2 \<Rightarrow>
               (case (if iloc_from \<noteq> None \<and> iloc_to \<noteq> None
                      then getslice element2 iloc_from iloc_to else Inr element2) of
                  Inl err \<Rightarrow> Inl err
                | Inr element3 \<Rightarrow>
                    (case (if iloc_to \<noteq> None then getslice element3 None iloc_to
                           else Inr element3) of
                       Inl err \<Rightarrow> Inl err
                     | Inr element4 \<Rightarrow>
                         (if iloc_from \<noteq> None then getslice element4 iloc_from None
                          else Inr element4)))))"

text \<open>
  \<^verbatim>\<open>get_text_by_xpath\<close>. The \<^verbatim>\<open>try\<close> block of lines 143 to 146 holds both
  \<^verbatim>\<open>element[pos]\<close> and the call of \<^verbatim>\<open>trim\<close>: an \<^verbatim>\<open>IndexError\<close> of either gives \<^verbatim>\<open>None\<close>,
  any other exception is raised.
\<close>

definition get_text_by_xpath ::
  "(item \<Rightarrow> error + string) \<Rightarrow> string \<Rightarrow> int \<Rightarrow> int option \<Rightarrow> int option \<Rightarrow> int option \<Rightarrow>
   string option \<Rightarrow> TransfermarktBase \<Rightarrow> (error + string option) \<times> TransfermarktBase" where
  "get_text_by_xpath trim xpath pos iloc iloc_from iloc_to join_str self =
     (case page_xpath self xpath of
        Inl err \<Rightarrow> (Inl err, self)
      | Inr element \<Rightarrow>
          (if truthy element then
             (case shape_element trim element iloc iloc_from iloc_to of
                Inl err \<Rightarrow> (Inl err, self)
              | Inr shaped \<Rightarrow>
                  (case join_str of
                     Some sep \<Rightarrow>
                       (case iterate shaped of
                          Inl err \<Rightarrow> (Inl err, self)
                        | Inr es \<Rightarrow>
                            (case trim_all trim (map Text es) of
                               Inl err \<Rightarrow> (Inl err, self)
                             | Inr ts \<Rightarrow> (Inr (Some (join sep ts)), self)))
                   | None \<Rightarrow>
                       (case (case getitem shaped pos of
                                Inl err \<Rightarrow> Inl err
                              | Inr s \<Rightarrow> trim (Text s)) of
                          Inr t \<Rightarrow> (Inr (Some t), self)
                        | Inl err \<Rightarrow>
                            (if err = IndexError then (Inr None, self)
                             else (Inl err, self)))))
           else (Inr None, self)))"

definition raise_exception_if_not_found ::
  "(item \<Rightarrow> error + string) \<Rightarrow> string \<Rightarrow> TransfermarktBase \<Rightarrow>
   (error + unit) \<times> TransfermarktBase" where
  "raise_exception_if_not_found trim xpath self =
     (case get_text_by_xpath trim xpath 0 None None None None self of
        (Inl err, self1) \<Rightarrow> (Inl err, self1)
      | (Inr text, self1) \<Rightarrow>
          (if text = None \<or> text = Some []
           then (Inl (HTTPException 404
                   (''Invalid request (url: '' @ URL self1 @ '')'')), self1)
           else (Inr (), self1)))"

text \<open>
  The class \<^verbatim>\<open>Pagination\<close> (\<^verbatim>\<open>app.utils.xpath\<close>) is not among the source files; its two
  constants are the fields of the parameter \<open>pagination\<close>.
\<close>

record Pagination =
  PAGE_NUMBER_LAST :: string
  PAGE_NUMBER_ACTIVE :: string

text \<open>
  The \<^verbatim>\<open>for\<close> loop of \<^verbatim>\<open>get_last_page_number\<close> over the locators still to try;
  \<^verbatim>\<open>url_page.split("=")[-1].split("/")[-1]\<close> is written with \<open>split\<close> and \<open>getitem\<close>.
\<close>

definition page_token :: "string \<Rightarrow> error + string" where
  "page_token url_page =
     (case getitem (PyList (split url_page CHR ''='')) (- 1) of
        Inl err \<Rightarrow> Inl err
      | Inr s \<Rightarrow> getitem (PyList (split s CHR ''/'')) (- 1))"

fun last_page_loop ::
  "(item \<Rightarrow> error + string) \<Rightarrow> string \<Rightarrow> string list \<Rightarrow> TransfermarktBase \<Rightarrow>
   (error + int) \<times> TransfermarktBase" where
  "last_page_loop trim xpath_base [] self = (Inr 1, self)"
| "last_page_loop trim xpath_base (xpath # rest) self =
     (case get_text_by_xpath trim (xpath_base @ xpath) 0 None None None None self of
        (Inl err, self1) \<Rightarrow> (Inl err, self1)
      | (Inr None, self1) \<Rightarrow> last_page_loop trim xpath_base rest self1
      | (Inr (Some url_page), self1) \<Rightarrow>
          (if url_page \<noteq> [] then
             (case page_token url_page of
                Inl err \<Rightarrow> (Inl err, self1)
              | Inr token \<Rightarrow> (py_int token, self1))
           else last_page_loop trim xpath_base rest self1))"

definition get_last_page_number ::
  "(item \<Rightarrow> error + string) \<Rightarrow> Pagination \<Rightarrow> string \<Rightarrow> TransfermarktBase \<Rightarrow>
   (error + int) \<times> TransfermarktBase" where
  "get_last_page_number trim pagination xpath_base self =
     last_page_loop trim xpath_base
       [PAGE_NUMBER_LAST pagination, PAGE_NUMBER_ACTIVE pagination] self"

section \<open>Notions of the specification\<close>

text \<open>
  The specification's wording for \<^verbatim>\<open>s.split(c)[-1]\<close>: the text after the final
  occurrence of \<open>c\<close> in \<open>s\<close>, and all of \<open>s\<close> when \<open>c\<close> does not occur.
\<close>

definition after_last :: "char \<Rightarrow> string \<Rightarrow> string" where
  "after_last c s = rev (takeWhile (\<lambda>x. x \<noteq> c) (rev s))"

text \<open>
  The number that a text of decimal digits denotes, and the texts on which this is the
  whole of what \<^verbatim>\<open>int\<close> has to do: decimal digits only, at least one and at most 4300.
\<close>

definition decimal_value :: "string \<Rightarrow> nat" where
  "decimal_value s = foldl (\<lambda>acc c. 10 * acc + (of_char c - 48)) 0 s"

definition decimal_text :: "string \<Rightarrow> bool" where
  "decimal_text s = (s \<noteq> [] \<and> list_all isdigit s \<and> length s \<le> max_str_digits)"

section \<open>An instance of \<^verbatim>\<open>trim\<close>\<close>

text \<open>
  The instance of \<^verbatim>\<open>trim\<close> used in the closed examples: a text is stripped of its
  surrounding whitespace, and an element node, which has no method \<^verbatim>\<open>strip\<close>, raises
  \<^verbatim>\<open>AttributeError\<close>.
\<close>

definition strip_text :: "item \<Rightarrow> error + string" where
  "strip_text m = (case m of Text s \<Rightarrow> Inr (strip s) | Node n \<Rightarrow> Inl AttributeError)"

section \<open>Auxiliary facts\<close>

lemma split_not_Nil: "split s c \<noteq> []"
  by (induction s) (auto split: list.splits)

lemma index_minus_one: "xs \<noteq> [] \<Longrightarrow> index_seq xs (- 1) = Inr (last xs)"
proof -
  assume ne: "xs \<noteq> []"
  then have "nat (int (length xs) - 1) = length xs - 1"
    by (cases xs) auto
  with ne show ?thesis
    by (simp add: index_seq_def Let_def last_conv_nth)
qed

lemma getitem_minus_one: "xs \<noteq> [] \<Longrightarrow> getitem (PyList xs) (- 1) = Inr (last xs)"
  by (simp add: getitem_def index_minus_one)

lemma split_no_sep: "c \<notin> set s \<Longrightarrow> split s c = [s]"
  by (induction s) auto

lemma split_sep_length: "c \<in> set s \<Longrightarrow> 2 \<le> length (split s c)"
proof (induction s)
  case Nil
  then show ?case by simp
next
  case (Cons a s)
  show ?case
  proof (cases "a = c")
    case True
    with split_not_Nil [of s c] show ?thesis
      by (cases "split s c") auto
  next
    case False
    with Cons show ?thesis
      by (cases "split s c") auto
  qed
qed

lemma after_last_Cons:
  "after_last c (a # s) = (if c \<in> set s then after_last c s else if a = c then s else a # s)"
proof (cases "c \<in> set s")
  case True
  then have "takeWhile (\<lambda>x. x \<noteq> c) (rev s @ [a]) = takeWhile (\<lambda>x. x \<noteq> c) (rev s)"
    by (intro takeWhile_append1 [where x = c]) auto
  with True show ?thesis by (simp add: after_last_def)
next
  case False
  then have "takeWhile (\<lambda>x. x \<noteq> c) (rev s @ [a]) = rev s @ takeWhile (\<lambda>x. x \<noteq> c) [a]"
    by (intro takeWhile_append2) auto
  with False show ?thesis by (simp add: after_last_def)
qed

lemma last_split: "last (split s c) = after_last c s"
proof (induction s)
  case Nil
  then show ?case by (simp add: after_last_def)
next
  case (Cons a s)
  show ?case
  proof (cases "c \<in> set s")
    case True
    from split_sep_length [OF True] obtain w v ws where sp: "split s c = w # v # ws"
      by (cases "split s c"; cases "tl (split s c)") auto
    with Cons True show ?thesis
      by (simp add: after_last_Cons)
  next
    case False
    then show ?thesis
      by (simp add: after_last_Cons split_no_sep)
  qed
qed

lemma page_token_eq: "page_token t = Inr (after_last CHR ''/'' (after_last CHR ''='' t))"
  by (simp add: page_token_def getitem_minus_one split_not_Nil last_split)

lemma trim_all_total:
  "(\<And>m. m \<in> set ms \<Longrightarrow> trim m = Inr (f m)) \<Longrightarrow> trim_all trim ms = Inr (map f ms)"
  by (induction ms) auto

lemma trim_nonempty_total:
  "(\<And>m. m \<in> set ms \<Longrightarrow> trim m = Inr (f m)) \<Longrightarrow>
   trim_nonempty trim ms = Inr (filter (\<lambda>s. s \<noteq> []) (map f ms))"
  by (induction ms) auto

lemma trim_all_text:
  "\<forall>s. trim (Text s) = Inr (f s) \<Longrightarrow> trim_all trim (map Text xs) = Inr (map f xs)"
  by (induction xs) auto

lemma trim_nonempty_text:
  "\<forall>s. trim (Text s) = Inr (f s) \<Longrightarrow>
   trim_nonempty trim (map Text xs) = Inr (filter (\<lambda>s. s \<noteq> []) (map f xs))"
  by (induction xs) auto

lemma trim_nonempty_first:
  "trim_nonempty trim ms = Inr (v # vs) \<Longrightarrow> \<exists>m \<in> set ms. trim m = Inr v \<and> v \<noteq> []"
proof (induction ms arbitrary: v vs)
  case Nil
  then show ?case by simp
next
  case (Cons m ms)
  then show ?case
    by (auto split: sum.splits if_splits)
qed

lemma index_zero: "index_seq ts 0 = (case ts of [] \<Rightarrow> Inl IndexError | v # _ \<Rightarrow> Inr v)"
  by (cases ts) (auto simp: index_seq_def)

lemma index_out_of_range:
  "\<not> (- int (length xs) \<le> i \<and> i < int (length xs)) \<Longrightarrow> index_seq xs i = Inl IndexError"
  by (auto simp: index_seq_def Let_def)

lemma get_text_default:
  assumes "page_xpath self xpath = Inr (Matches ms)"
    and "trim_nonempty trim ms = Inr ts"
  shows "get_text_by_xpath trim xpath 0 None None None None self =
     ((case ts of
         [] \<Rightarrow> Inr None
       | v # _ \<Rightarrow>
           (case trim (Text v) of
              Inr t \<Rightarrow> Inr (Some t)
            | Inl err \<Rightarrow> if err = IndexError then Inr None else Inl err)), self)"
proof (cases ms)
  case Nil
  with assms show ?thesis
    by (simp add: get_text_by_xpath_def truthy_def)
next
  case (Cons m ms')
  with assms have "truthy (Matches ms)"
    by (simp add: truthy_def)
  with assms show ?thesis
    by (cases ts; cases "trim (Text (hd ts))")
      (simp_all add: get_text_by_xpath_def shape_element_def getitem_def index_zero)
qed

lemma get_text_default_text:
  assumes "\<forall>s. trim (Text s) = Inr (f s)"
    and "page_xpath self xpath = Inr (Matches (map Text ms))"
  shows "get_text_by_xpath trim xpath 0 None None None None self =
     (Inr (case filter (\<lambda>s. s \<noteq> []) (map f ms) of
             [] \<Rightarrow> None | v # _ \<Rightarrow> Some (f v)), self)"
  using get_text_default [OF assms(2) trim_nonempty_text [OF assms(1)]] assms(1)
  by (cases "filter (\<lambda>s. s \<noteq> []) (map f ms)") simp_all

lemma get_text_frame: "snd (get_text_by_xpath trim xpath pos iloc a b j self) = self"
  by (auto simp: get_text_by_xpath_def Let_def split: sum.splits option.splits)

lemma last_page_loop_frame: "snd (last_page_loop trim base xs self) = self"
proof (induction xs arbitrary: self)
  case Nil
  then show ?case by simp
next
  case (Cons x xs)
  obtain r s1 where g: "get_text_by_xpath trim (base @ x) 0 None None None None self = (r, s1)"
    by (cases "get_text_by_xpath trim (base @ x) 0 None None None None self")
  with get_text_frame [of trim "base @ x" 0 None None None None self] have s1: "s1 = self"
    by simp
  show ?case
    using Cons.IH [of self]
    by (simp add: g s1 split: sum.splits option.splits)
qed

lemma shape_matches_sequence:
  assumes "shape_element trim (Matches ms) iloc iloc_from iloc_to = Inr shaped"
  shows "(\<exists>xs. shaped = PyList xs) \<or> (\<exists>s. shaped = PyStr s)"
  using assms
  by (auto simp: shape_element_def getslice_def
      split: sum.splits option.splits if_splits element.splits)

lemma py_int_cases: "py_int s = Inl ValueError \<or> (\<exists>n. py_int s = Inr n)"
  by (auto simp: py_int_def Let_def split: list.splits option.splits)

lemma parse_digits_decimal:
  "list_all isdigit s \<Longrightarrow> s \<noteq> [] \<or> b \<Longrightarrow>
   parse_digits acc b s = Some (foldl (\<lambda>acc c. 10 * acc + (of_char c - 48)) acc s)"
  by (induction s arbitrary: acc b) auto

lemma strip_fixed:
  assumes "s \<noteq> []" and "\<not> P (hd s)" and "\<not> P (last s)"
  shows "rev (dropWhile P (rev (dropWhile P s))) = s"
proof -
  from assms(1,2) have d: "dropWhile P s = s"
    by (cases s) auto
  from assms(1,3) have "dropWhile P (rev s) = rev s"
    by (cases "rev s") (auto simp: hd_rev)
  with d show ?thesis
    by simp
qed

lemma isdigit_not_space: "isdigit c \<Longrightarrow> \<not> int_isspace c"
  by (auto simp: isdigit_def int_isspace_def)

lemma isdigit_not_sign: "isdigit c \<Longrightarrow> c \<noteq> CHR ''-'' \<and> c \<noteq> CHR ''+''"
  by (auto simp: isdigit_def)

lemma py_int_unsigned:
  assumes "int_strip s = c # cs" and "c \<noteq> CHR ''-''" and "c \<noteq> CHR ''+''"
  shows "py_int s =
      (case parse_digits 0 False (c # cs) of
         None \<Rightarrow> Inl ValueError
       | Some n \<Rightarrow>
           (if max_str_digits < length (filter isdigit (c # cs)) then Inl ValueError
            else Inr (int n)))"
  using assms
  by (simp add: py_int_def Let_def del: parse_digits.simps filter.simps split: option.splits)

lemma py_int_decimal:
  assumes "decimal_text s"
  shows "py_int s = Inr (int (decimal_value s))"
proof -
  from assms have ne: "s \<noteq> []" and dig: "list_all isdigit s" and len: "length s \<le> max_str_digits"
    by (simp_all add: decimal_text_def)
  from ne dig have "isdigit (hd s)" and "isdigit (last s)"
    by (simp_all add: list_all_iff)
  with ne have st: "int_strip s = s"
    unfolding int_strip_def by (intro strip_fixed) (simp_all add: isdigit_not_space)
  obtain c cs where s: "s = c # cs"
    using ne by (cases s) auto
  with dig have c: "c \<noteq> CHR ''-''" "c \<noteq> CHR ''+''"
    using isdigit_not_sign [of c] by simp_all
  from dig have fl: "filter isdigit s = s"
    by (simp add: list_all_iff)
  have pd: "parse_digits 0 False s = Some (decimal_value s)"
    using parse_digits_decimal [OF dig, of False 0] ne by (simp add: decimal_value_def)
  from st s have "int_strip s = c # cs"
    by simp
  from py_int_unsigned [OF this c] have "py_int s =
      (case parse_digits 0 False s of
         None \<Rightarrow> Inl ValueError
       | Some n \<Rightarrow>
           (if max_str_digits < length (filter isdigit s) then Inl ValueError
            else Inr (int n)))"
    unfolding s [symmetric] .
  with pd fl len show ?thesis
    by simp
qed

lemma filter_dropWhile:
  "(\<And>c. P c \<Longrightarrow> \<not> Q c) \<Longrightarrow> filter Q (dropWhile P s) = filter Q s"
  by (induction s) auto

lemma filter_isdigit_int_strip: "filter isdigit (int_strip s) = filter isdigit s"
proof -
  have n: "\<And>c. int_isspace c \<Longrightarrow> \<not> isdigit c"
    using isdigit_not_space by blast
  have "filter isdigit (int_strip s) =
      rev (filter isdigit (dropWhile int_isspace (rev (dropWhile int_isspace s))))"
    by (simp add: int_strip_def rev_filter)
  also have "\<dots> = rev (filter isdigit (rev (dropWhile int_isspace s)))"
    by (simp add: filter_dropWhile [OF n])
  also have "\<dots> = filter isdigit (dropWhile int_isspace s)"
    by (simp add: rev_filter)
  also have "\<dots> = filter isdigit s"
    by (simp add: filter_dropWhile [OF n])
  finally show ?thesis .
qed

lemma py_int_body:
  assumes "int_strip s = c # cs"
    and "body = (if c = CHR ''-'' \<or> c = CHR ''+'' then cs else c # cs)"
  shows "py_int s =
      (case parse_digits 0 False body of
         None \<Rightarrow> Inl ValueError
       | Some n \<Rightarrow>
           (if max_str_digits < length (filter isdigit body) then Inl ValueError
            else Inr (if c = CHR ''-'' then - int n else int n)))"
  using assms by (simp only: py_int_def Let_def list.case)

lemma py_int_limit:
  assumes "max_str_digits < length (filter isdigit s)"
  shows "py_int s = Inl ValueError"
proof (cases "int_strip s")
  case Nil
  then show ?thesis
    by (simp add: py_int_def)
next
  case (Cons c cs)
  define body where "body = (if c = CHR ''-'' \<or> c = CHR ''+'' then cs else c # cs)"
  have "filter isdigit body = filter isdigit (c # cs)"
    unfolding body_def using isdigit_not_sign [of c] by auto
  also have "\<dots> = filter isdigit s"
    using filter_isdigit_int_strip [of s] Cons by simp
  finally have "max_str_digits < length (filter isdigit body)"
    using assms by simp
  then show ?thesis
    unfolding py_int_body [OF Cons body_def]
    by (cases "parse_digits 0 False body") simp_all
qed

text \<open>
  \<open>py_int\<close> at literals that tell \<^verbatim>\<open>int\<close> from a parser of digits behind \<^verbatim>\<open>strip\<close>, and at
  the limit on the number of digits; the results are those of CPython 3.11.
\<close>

lemma py_int_examples:
  "py_int '' 7 '' = Inr 7"
  "py_int ''+7'' = Inr 7"
  "py_int ''-7'' = Inr (- 7)"
  "py_int ''1_0'' = Inr 10"
  "py_int ''007'' = Inr 7"
  "py_int [CHR 0x09, CHR ''7'', CHR 0x0A] = Inr 7"
  "py_int [CHR 0x85, CHR ''7'', CHR 0xA0] = Inr 7"
  "py_int [CHR 0x1C, CHR ''7''] = Inl ValueError"
  "py_int [CHR ''7'', CHR 0x1F] = Inl ValueError"
  "py_int [CHR ''7'', CHR 0x00] = Inl ValueError"
  "py_int ''1__0'' = Inl ValueError"
  "py_int ''_1'' = Inl ValueError"
  "py_int ''1_'' = Inl ValueError"
  "py_int ''- 7'' = Inl ValueError"
  "py_int ''+-7'' = Inl ValueError"
  "py_int ''+'' = Inl ValueError"
  "py_int '' '' = Inl ValueError"
  "py_int '''' = Inl ValueError"
  "py_int ''7.0'' = Inl ValueError"
  by (simp_all add: py_int_def int_strip_def int_isspace_def isdigit_def max_str_digits_def)

lemma py_int_digit_limit:
  "py_int (replicate 4300 CHR ''1'') = Inr (int (decimal_value (replicate 4300 CHR ''1'')))"
  "py_int (replicate 4301 CHR ''1'') = Inl ValueError"
  "py_int (replicate 4301 CHR ''0'') = Inl ValueError"
proof -
  have d: "isdigit CHR ''1''" "isdigit CHR ''0''"
    by (simp_all add: isdigit_def)
  have "decimal_text (replicate 4300 CHR ''1'')"
    using d by (simp add: decimal_text_def list_all_iff max_str_digits_def)
  then show "py_int (replicate 4300 CHR ''1'') =
      Inr (int (decimal_value (replicate 4300 CHR ''1'')))"
    by (rule py_int_decimal)
  have "filter isdigit (replicate 4301 CHR ''1'') = replicate 4301 CHR ''1''"
    using d by (simp only: filter_replicate if_True)
  then show "py_int (replicate 4301 CHR ''1'') = Inl ValueError"
    by (intro py_int_limit) (simp add: max_str_digits_def)
  have "filter isdigit (replicate 4301 CHR ''0'') = replicate 4301 CHR ''0''"
    using d by (simp only: filter_replicate if_True)
  then show "py_int (replicate 4301 CHR ''0'') = Inl ValueError"
    by (intro py_int_limit) (simp add: max_str_digits_def)
qed

lemma get_text_default_nonempty:
  assumes T: "\<forall>s. trim (Text s) = Inr (f s)"
    and H: "\<forall>s. f s \<noteq> [] \<longrightarrow> f (f s) \<noteq> []"
    and pg: "page_xpath self xpath = Inr (Matches (map Text ms))"
    and r: "get_text_by_xpath trim xpath 0 None None None None self = (Inr (Some t), self1)"
  shows "t \<noteq> []"
proof (cases "filter (\<lambda>s. s \<noteq> []) (map f ms)")
  case Nil
  with r show ?thesis
    by (simp add: get_text_default_text [OF T pg])
next
  case (Cons v vs)
  with r have t: "t = f v"
    by (simp add: get_text_default_text [OF T pg])
  have "v \<in> set (filter (\<lambda>s. s \<noteq> []) (map f ms))"
    by (simp add: Cons)
  then obtain e where "v = f e" "f e \<noteq> []"
    by auto
  with H t show ?thesis
    by simp
qed

lemma last_page_number_lists:
  assumes T: "\<forall>s. trim (Text s) = Inr (f s)"
    and H: "\<forall>s. f s \<noteq> [] \<longrightarrow> f (f s) \<noteq> []"
    and p1: "page_xpath self (xpath_base @ PAGE_NUMBER_LAST pagination) =
               Inr (Matches (map Text ms1))"
    and p2: "page_xpath self (xpath_base @ PAGE_NUMBER_ACTIVE pagination) =
               Inr (Matches (map Text ms2))"
  shows "\<exists>t1 t2.
     fst (get_text_by_xpath trim (xpath_base @ PAGE_NUMBER_LAST pagination)
            0 None None None None self) = Inr t1 \<and>
     fst (get_text_by_xpath trim (xpath_base @ PAGE_NUMBER_ACTIVE pagination)
            0 None None None None self) = Inr t2 \<and>
     fst (get_last_page_number trim pagination xpath_base self) =
       (case t1 of
          Some t \<Rightarrow> py_int (after_last CHR ''/'' (after_last CHR ''='' t))
        | None \<Rightarrow>
            (case t2 of
               Some t \<Rightarrow> py_int (after_last CHR ''/'' (after_last CHR ''='' t))
             | None \<Rightarrow> Inr 1))"
proof -
  obtain t1 where g1: "get_text_by_xpath trim (xpath_base @ PAGE_NUMBER_LAST pagination)
      0 None None None None self = (Inr t1, self)"
    using get_text_default_text [OF T p1] by blast
  obtain t2 where g2: "get_text_by_xpath trim (xpath_base @ PAGE_NUMBER_ACTIVE pagination)
      0 None None None None self = (Inr t2, self)"
    using get_text_default_text [OF T p2] by blast
  have n1: "t \<noteq> []" if "t1 = Some t" for t
    using get_text_default_nonempty [OF T H p1] g1 that by simp
  have n2: "t \<noteq> []" if "t2 = Some t" for t
    using get_text_default_nonempty [OF T H p2] g2 that by simp
  have "fst (get_last_page_number trim pagination xpath_base self) =
       (case t1 of
          Some t \<Rightarrow> py_int (after_last CHR ''/'' (after_last CHR ''='' t))
        | None \<Rightarrow>
            (case t2 of
               Some t \<Rightarrow> py_int (after_last CHR ''/'' (after_last CHR ''='' t))
             | None \<Rightarrow> Inr 1))"
    using n1 n2
    by (simp add: get_last_page_number_def g1 g2 page_token_eq split: option.splits)
  with g1 g2 show ?thesis
    by simp
qed

lemma strip_ends:
  "strip s = [] \<or> (\<not> isspace (hd (strip s)) \<and> \<not> isspace (last (strip s)))"
proof (cases "strip s = []")
  case True
  then show ?thesis by simp
next
  case False
  define u where "u = dropWhile isspace s"
  define w where "w = dropWhile isspace (rev u)"
  have sw: "strip s = rev w"
    by (simp add: strip_def u_def w_def)
  with False have wne: "w \<noteq> []" by simp
  then have hw: "\<not> isspace (hd w)"
    unfolding w_def by (rule hd_dropWhile)
  from wne have une: "u \<noteq> []"
    unfolding w_def by auto
  then have hu: "\<not> isspace (hd u)"
    unfolding u_def by (rule hd_dropWhile)
  obtain pre where pre: "rev u = pre @ w"
    unfolding w_def by (metis takeWhile_dropWhile_id)
  then have "u = rev w @ rev pre"
    by (metis rev_append rev_rev_ident)
  with wne have "hd u = hd (rev w)"
    by simp
  with hu hw wne sw show ?thesis
    by (simp add: last_rev)
qed

lemma strip_idem: "strip (strip s) = strip s"
proof (cases "strip s = []")
  case True
  have "strip [] = []" by (simp add: strip_def)
  with True show ?thesis by simp
next
  case False
  with strip_ends [of s] have h: "\<not> isspace (hd (strip s))" and l: "\<not> isspace (last (strip s))"
    by auto
  from False h l show ?thesis
    unfolding strip_def [of "strip s"] by (rule strip_fixed)
qed

lemma strip_trim_law: "\<forall>s. strip s \<noteq> [] \<longrightarrow> strip (strip s) \<noteq> []"
  by (simp add: strip_idem)

lemma strip_text_Text: "\<forall>s. strip_text (Text s) = Inr (strip s)"
  by (simp add: strip_text_def)

lemma make_request_traced_result:
  "fst (make_request_traced uniform requests_get url_arg self) =
     make_request requests_get url_arg self"
  by (simp add: make_request_traced_def make_request_def Let_def split: outcome.splits)

section \<open>Claims about \<^verbatim>\<open>get_text_by_xpath\<close>\<close>

text \<open>
  In the closed instances below, \<open>strip_text\<close> (surrounding whitespace removed from a
  text) stands for \<^verbatim>\<open>trim\<close>.
\<close>

text \<open>
  Claim C1 says that \<^verbatim>\<open>iloc_from\<close> and \<^verbatim>\<open>iloc_to\<close> given together leave the sub-range
  \<open>[iloc_from, iloc_to)\<close> of the trimmed matches, so that 1 and 3 on the matches a, b, c, d
  leave b, c. The three \<^verbatim>\<open>if\<close> statements of lines 131 to 138 are not alternatives: after
  \<^verbatim>\<open>element[iloc_from:iloc_to]\<close> the code also takes \<^verbatim>\<open>element[:iloc_to]\<close> and then
  \<^verbatim>\<open>element[iloc_from:]\<close>, which drops \<open>iloc_from\<close> items a second time. For every
  \<^verbatim>\<open>trim\<close> that leaves the four letters as they are, the value reaching the test of
  \<^verbatim>\<open>join_str\<close> is the one-item list c, while the sub-range of the claim is b, c.
\<close>

theorem iloc_from_to_slices_again:
  assumes "trim (Text ''a'') = Inr ''a''" and "trim (Text ''b'') = Inr ''b''"
    and "trim (Text ''c'') = Inr ''c''" and "trim (Text ''d'') = Inr ''d''"
  shows "shape_element trim (Matches [Text ''a'', Text ''b'', Text ''c'', Text ''d''])
           None (Some 1) (Some 3) = Inr (PyList [''c'']) \<and>
         slice_seq [''a'', ''b'', ''c'', ''d''] (Some 1) (Some 3) = [''b'', ''c'']"
  using assms
  by (simp add: shape_element_def getslice_def slice_seq_def clamp_index_def)

text \<open>The statement of C1 at \<open>trim = strip_text\<close>.\<close>

theorem iloc_from_to_slices_again_witness:
  "shape_element strip_text (Matches [Text ''a'', Text ''b'', Text ''c'', Text ''d''])
     None (Some 1) (Some 3) = Inr (PyList [''c''])"
  using iloc_from_to_slices_again [where trim = strip_text]
  by (simp add: strip_text_def strip_def isspace_def)

text \<open>
  Claim C2 says that an in-range \<^verbatim>\<open>iloc\<close> with no other option returns the trimmed match
  at that position. Line 129 replaces the list by that match, a \<^verbatim>\<open>str\<close>, and line 144
  then indexes it with \<^verbatim>\<open>pos\<close>: the value returned is the trimmed character at \<^verbatim>\<open>pos\<close>
  of the selected match. With the single match ab, \<^verbatim>\<open>iloc=0\<close> and the default
  \<^verbatim>\<open>pos=0\<close> the method returns a, for every \<^verbatim>\<open>trim\<close> that leaves ab and a as they are.
\<close>

theorem iloc_then_pos_indexes_characters:
  assumes "page_xpath self xpath = Inr (Matches [Text ''ab''])"
    and "trim (Text ''ab'') = Inr ''ab''" and "trim (Text ''a'') = Inr ''a''"
  shows "fst (get_text_by_xpath trim xpath 0 (Some 0) None None None self) = Inr (Some ''a'')"
  using assms
  by (simp add: get_text_by_xpath_def truthy_def shape_element_def getitem_def index_seq_def)

text \<open>The statement of C2 at \<open>trim = strip_text\<close>.\<close>

theorem iloc_then_pos_indexes_characters_witness:
  "fst (get_text_by_xpath strip_text ''//a'' 0 (Some 0) None None None
          \<lparr>URL = ''u'', page = Some (\<lambda>x. Inr (Matches [Text ''ab''])),
           response = Map.empty\<rparr>) =
     Inr (Some ''a'')"
  using iloc_then_pos_indexes_characters [where trim = strip_text and xpath = "''//a''"
      and self = "\<lparr>URL = ''u'', page = Some (\<lambda>x. Inr (Matches [Text ''ab''])),
           response = Map.empty\<rparr>"]
  by (simp add: page_xpath_def strip_text_def strip_def isspace_def)

text \<open>
  Claim C3, amended: for every match list that is not empty, with \<open>n\<close> matches left after
  trimming and dropping the empty ones, a \<^verbatim>\<open>pos\<close> outside \<open>[-n, n)\<close> with no shaping option
  returns \<^verbatim>\<open>None\<close>, and an \<^verbatim>\<open>iloc\<close> outside \<open>[-n, n)\<close> raises \<^verbatim>\<open>IndexError\<close>, whatever
  the other arguments are. (A path with no match at all returns \<^verbatim>\<open>None\<close> at line 123,
  before \<^verbatim>\<open>iloc\<close> is looked at.)
\<close>

theorem pos_swallowed_iloc_raised:
  assumes "page_xpath self xpath = Inr (Matches ms)" and "ms \<noteq> []"
    and "trim_nonempty trim ms = Inr ts" and "n = int (length ts)"
  shows "(\<not> (- n \<le> pos \<and> pos < n) \<longrightarrow>
            fst (get_text_by_xpath trim xpath pos None None None None self) = Inr None) \<and>
         (\<not> (- n \<le> k \<and> k < n) \<longrightarrow>
            fst (get_text_by_xpath trim xpath pos (Some k) iloc_from iloc_to join_str self) =
              Inl IndexError)"
proof -
  from assms have tr: "truthy (Matches ms)"
    by (simp add: truthy_def)
  have a: "fst (get_text_by_xpath trim xpath pos None None None None self) = Inr None"
    if "\<not> (- n \<le> pos \<and> pos < n)"
  proof -
    from that assms(4) have "getitem (PyList ts) pos = Inl IndexError"
      by (simp add: getitem_def index_out_of_range)
    with tr assms(1,3) show ?thesis
      by (simp add: get_text_by_xpath_def shape_element_def)
  qed
  have b: "fst (get_text_by_xpath trim xpath pos (Some k) iloc_from iloc_to join_str self) =
      Inl IndexError"
    if "\<not> (- n \<le> k \<and> k < n)"
  proof -
    from that assms(4) have "getitem (PyList ts) k = Inl IndexError"
      by (simp add: getitem_def index_out_of_range)
    with tr assms(1,3) show ?thesis
      by (simp add: get_text_by_xpath_def shape_element_def)
  qed
  from a b show ?thesis
    by blast
qed

text \<open>
  C3 at the matches \<open>'' a ''\<close>, \<open>''  ''\<close>, \<open>''b''\<close>: two are left after trimming, and index 2
  is out of range both as \<^verbatim>\<open>pos\<close> and as \<^verbatim>\<open>iloc\<close>.
\<close>

theorem pos_swallowed_iloc_raised_witness:
  "fst (get_text_by_xpath strip_text ''//a'' 2 None None None None
          \<lparr>URL = ''u'', page = Some (\<lambda>x. Inr (Matches [Text '' a '', Text ''  '', Text ''b''])),
           response = Map.empty\<rparr>) =
     Inr None \<and>
   fst (get_text_by_xpath strip_text ''//a'' 2 (Some 2) None None None
          \<lparr>URL = ''u'', page = Some (\<lambda>x. Inr (Matches [Text '' a '', Text ''  '', Text ''b''])),
           response = Map.empty\<rparr>) =
     Inl IndexError"
  using pos_swallowed_iloc_raised [where trim = strip_text and xpath = "''//a''"
      and self = "\<lparr>URL = ''u'',
           page = Some (\<lambda>x. Inr (Matches [Text '' a '', Text ''  '', Text ''b''])),
           response = Map.empty\<rparr>"
      and ms = "[Text '' a '', Text ''  '', Text ''b'']" and ts = "[''a'', ''b'']"
      and n = 2 and pos = 2 and k = 2
      and iloc_from = None and iloc_to = None and join_str = None]
  by (simp add: page_xpath_def strip_text_def strip_def isspace_def)

text \<open>
  Claim C3 as stated, for every match list, fails at the empty one: \<^verbatim>\<open>iloc=0\<close> is out of
  range there, and the method returns \<^verbatim>\<open>None\<close> without raising.
\<close>

theorem iloc_on_no_match_returns_null:
  "fst (get_text_by_xpath strip_text ''//a'' 0 (Some 0) None None None
          \<lparr>URL = ''u'', page = Some (\<lambda>x. Inr (Matches [])), response = Map.empty\<rparr>) =
     Inr None"
  by (simp add: get_text_by_xpath_def page_xpath_def truthy_def)

text \<open>
  Claim C8, amended: for every match list that is not empty and every separator
  \<^verbatim>\<open>join_str\<close>, the empty one included, when the shaping of lines 125 to 138 yields a
  value, that value is a sequence, and the method returns its items, each trimmed again,
  joined with the separator, whatever \<^verbatim>\<open>pos\<close> is (or raises what \<^verbatim>\<open>trim\<close> raises on an
  item). On the matches a, b, c with no other option, the separators \<open>''''\<close> and \<open>''-''\<close>
  give abc and a-b-c, for every \<^verbatim>\<open>trim\<close> that leaves the three letters as they are.
\<close>

theorem join_str_joins_shaped:
  assumes "page_xpath self xpath = Inr (Matches ms)" and "ms \<noteq> []"
  shows "(shape_element trim (Matches ms) iloc iloc_from iloc_to = Inr shaped \<longrightarrow>
            (\<exists>items. iterate shaped = Inr items \<and>
               fst (get_text_by_xpath trim xpath pos iloc iloc_from iloc_to (Some sep) self) =
                 (case trim_all trim (map Text items) of
                    Inl err \<Rightarrow> Inl err
                  | Inr ts \<Rightarrow> Inr (Some (join sep ts))))) \<and>
         (ms = [Text ''a'', Text ''b'', Text ''c''] \<and> trim (Text ''a'') = Inr ''a'' \<and>
          trim (Text ''b'') = Inr ''b'' \<and> trim (Text ''c'') = Inr ''c'' \<longrightarrow>
            fst (get_text_by_xpath trim xpath pos None None None (Some '''') self) =
              Inr (Some ''abc'') \<and>
            fst (get_text_by_xpath trim xpath pos None None None (Some ''-'') self) =
              Inr (Some ''a-b-c''))"
proof -
  from assms have tr: "truthy (Matches ms)"
    by (simp add: truthy_def)
  have a: "\<exists>items. iterate shaped = Inr items \<and>
       fst (get_text_by_xpath trim xpath pos iloc iloc_from iloc_to (Some sep) self) =
         (case trim_all trim (map Text items) of
            Inl err \<Rightarrow> Inl err
          | Inr ts \<Rightarrow> Inr (Some (join sep ts)))"
    if sh: "shape_element trim (Matches ms) iloc iloc_from iloc_to = Inr shaped"
  proof -
    from shape_matches_sequence [OF sh] obtain items where it: "iterate shaped = Inr items"
      by (auto simp: iterate_def)
    with sh tr assms(1) have
      "fst (get_text_by_xpath trim xpath pos iloc iloc_from iloc_to (Some sep) self) =
         (case trim_all trim (map Text items) of
            Inl err \<Rightarrow> Inl err
          | Inr ts \<Rightarrow> Inr (Some (join sep ts)))"
      by (simp add: get_text_by_xpath_def split: sum.splits)
    with it show ?thesis
      by blast
  qed
  have b: "fst (get_text_by_xpath trim xpath pos None None None (Some s) self) =
      Inr (Some (join s [''a'', ''b'', ''c'']))"
    if "ms = [Text ''a'', Text ''b'', Text ''c'']" and "trim (Text ''a'') = Inr ''a''"
      and "trim (Text ''b'') = Inr ''b''" and "trim (Text ''c'') = Inr ''c''" for s
    using that tr assms(1)
    by (simp add: get_text_by_xpath_def shape_element_def iterate_def)
  from a b [of "''''"] b [of "''-''"] show ?thesis
    by simp
qed

text \<open>
  C8 at \<open>trim = strip_text\<close>: a suffix from index 1 joined with a comma and a blank, with
  a \<^verbatim>\<open>pos\<close> that is out of range, and the two examples of the claim.
\<close>

theorem join_str_joins_shaped_witness:
  "fst (get_text_by_xpath strip_text ''//a'' 5 None (Some 1) None (Some '', '')
          \<lparr>URL = ''u'',
           page = Some (\<lambda>x. Inr (Matches [Text '' a '', Text ''  '', Text ''b'', Text ''c ''])),
           response = Map.empty\<rparr>) =
     Inr (Some ''b, c'') \<and>
   fst (get_text_by_xpath strip_text ''//a'' 0 None None None (Some '''')
          \<lparr>URL = ''u'', page = Some (\<lambda>x. Inr (Matches [Text ''a'', Text ''b'', Text ''c''])),
           response = Map.empty\<rparr>) =
     Inr (Some ''abc'') \<and>
   fst (get_text_by_xpath strip_text ''//a'' 0 None None None (Some ''-'')
          \<lparr>URL = ''u'', page = Some (\<lambda>x. Inr (Matches [Text ''a'', Text ''b'', Text ''c''])),
           response = Map.empty\<rparr>) =
     Inr (Some ''a-b-c'')"
proof -
  let ?A = "\<lparr>URL = ''u'',
           page = Some (\<lambda>x. Inr (Matches [Text '' a '', Text ''  '', Text ''b'', Text ''c ''])),
           response = Map.empty\<rparr>"
  let ?B = "\<lparr>URL = ''u'', page = Some (\<lambda>x. Inr (Matches [Text ''a'', Text ''b'', Text ''c''])),
           response = Map.empty\<rparr>"
  have pa: "page_xpath ?A ''//a'' =
      Inr (Matches [Text '' a '', Text ''  '', Text ''b'', Text ''c ''])"
    by (simp add: page_xpath_def)
  have pb: "page_xpath ?B ''//a'' = Inr (Matches [Text ''a'', Text ''b'', Text ''c''])"
    by (simp add: page_xpath_def)
  have sa: "shape_element strip_text
      (Matches [Text '' a '', Text ''  '', Text ''b'', Text ''c '']) None (Some 1) None =
      Inr (PyList [''b'', ''c''])"
    by (simp add: shape_element_def getslice_def slice_seq_def clamp_index_def
        strip_text_def strip_def isspace_def)
  have ta: "trim_all strip_text (map Text [''b'', ''c'']) = Inr [''b'', ''c'']"
    by (simp add: strip_text_def strip_def isspace_def)
  have A: "fst (get_text_by_xpath strip_text ''//a'' 5 None (Some 1) None (Some '', '') ?A) =
      Inr (Some ''b, c'')"
    using join_str_joins_shaped [OF pa, where trim = strip_text and pos = 5 and iloc = None
        and iloc_from = "Some 1" and iloc_to = None and shaped = "PyList [''b'', ''c'']"
        and sep = "'', ''"] sa ta
    by (simp add: iterate_def)
  have B: "fst (get_text_by_xpath strip_text ''//a'' 0 None None None (Some '''') ?B) =
        Inr (Some ''abc'') \<and>
      fst (get_text_by_xpath strip_text ''//a'' 0 None None None (Some ''-'') ?B) =
        Inr (Some ''a-b-c'')"
    using join_str_joins_shaped [OF pb, where trim = strip_text and pos = 0]
    by (simp add: strip_text_def strip_def isspace_def)
  from A B show ?thesis
    by simp
qed

text \<open>
  Claim C8 as stated, for every match list, fails at the empty one: the working sequence
  would be empty and its join the empty string, but the method returns \<^verbatim>\<open>None\<close>. It
  also fails where \<^verbatim>\<open>iloc\<close> is out of range: the \<^verbatim>\<open>IndexError\<close> of line 129 is raised
  before \<^verbatim>\<open>join_str\<close> is looked at.
\<close>

theorem join_str_on_no_match_returns_null:
  "fst (get_text_by_xpath strip_text ''//a'' 0 None None None (Some ''-'')
          \<lparr>URL = ''u'', page = Some (\<lambda>x. Inr (Matches [])), response = Map.empty\<rparr>) =
     Inr None \<and>
   shape_element strip_text (Matches []) None None None = Inr (PyList []) \<and>
   iterate (PyList []) = Inr [] \<and>
   trim_all strip_text (map Text []) = Inr [] \<and>
   join ''-'' [] = '''' \<and>
   fst (get_text_by_xpath strip_text ''//a'' 0 (Some 5) None None (Some ''-'')
          \<lparr>URL = ''u'', page = Some (\<lambda>x. Inr (Matches [Text ''a''])),
           response = Map.empty\<rparr>) =
     Inl IndexError"
  by (simp add: get_text_by_xpath_def page_xpath_def truthy_def shape_element_def iterate_def
      getitem_def index_seq_def strip_text_def strip_def isspace_def)

section \<open>Claims about \<^verbatim>\<open>make_request\<close>\<close>

text \<open>
  Claim C5: when the request made for the address \<open>url\<close> (the argument, or the instance's
  \<^verbatim>\<open>URL\<close> when the argument is absent or empty) returns a response with status code \<open>c\<close>,
  then \<open>400 \<le> c < 500\<close> raises the client error with status \<open>c\<close>, \<open>500 \<le> c < 600\<close> raises the
  server error with status \<open>c\<close>, and any other \<open>c\<close> returns the response.
\<close>

theorem make_request_status_classes:
  assumes "url = (case url_arg of None \<Rightarrow> URL self | Some u \<Rightarrow> if u = [] then URL self else u)"
    and "requests_get url headers 15 = Returned resp"
    and "c = status_code resp"
  shows "(400 \<le> c \<and> c < 500 \<longrightarrow>
            fst (make_request requests_get url_arg self) =
              Inl (HTTPException c (''Client Error. '' @ reason resp @ '' for url: '' @ url))) \<and>
         (500 \<le> c \<and> c < 600 \<longrightarrow>
            fst (make_request requests_get url_arg self) =
              Inl (HTTPException c (''Server Error. '' @ reason resp @ '' for url: '' @ url))) \<and>
         (\<not> (400 \<le> c \<and> c < 600) \<longrightarrow>
            fst (make_request requests_get url_arg self) = Inr resp)"
  using assms by (auto simp: make_request_def Let_def)

text \<open>C5 at the status codes 404, 503 and 302.\<close>

theorem make_request_status_classes_witness:
  "fst (make_request (\<lambda>u h t. Returned \<lparr>status_code = 404, reason = ''Not Found'', content = ''''\<rparr>)
          None \<lparr>URL = ''https://t.example/a'', page = None, response = Map.empty\<rparr>) =
     Inl (HTTPException 404 ''Client Error. Not Found for url: https://t.example/a'') \<and>
   fst (make_request (\<lambda>u h t. Returned \<lparr>status_code = 503, reason = ''Busy'', content = ''''\<rparr>)
          (Some ''https://t.example/b'')
          \<lparr>URL = ''https://t.example/a'', page = None, response = Map.empty\<rparr>) =
     Inl (HTTPException 503 ''Server Error. Busy for url: https://t.example/b'') \<and>
   fst (make_request (\<lambda>u h t. Returned \<lparr>status_code = 302, reason = ''Found'', content = ''x''\<rparr>)
          (Some '''') \<lparr>URL = ''https://t.example/a'', page = None, response = Map.empty\<rparr>) =
     Inr \<lparr>status_code = 302, reason = ''Found'', content = ''x''\<rparr>"
  using
    make_request_status_classes [where url = "''https://t.example/a''" and url_arg = None
      and self = "\<lparr>URL = ''https://t.example/a'', page = None, response = Map.empty\<rparr>"
      and requests_get = "\<lambda>u h t. Returned \<lparr>status_code = 404, reason = ''Not Found'', content = ''''\<rparr>"
      and resp = "\<lparr>status_code = 404, reason = ''Not Found'', content = ''''\<rparr>" and c = 404]
    make_request_status_classes [where url = "''https://t.example/b''"
      and url_arg = "Some ''https://t.example/b''"
      and self = "\<lparr>URL = ''https://t.example/a'', page = None, response = Map.empty\<rparr>"
      and requests_get = "\<lambda>u h t. Returned \<lparr>status_code = 503, reason = ''Busy'', content = ''''\<rparr>"
      and resp = "\<lparr>status_code = 503, reason = ''Busy'', content = ''''\<rparr>" and c = 503]
    make_request_status_classes [where url = "''https://t.example/a''" and url_arg = "Some ''''"
      and self = "\<lparr>URL = ''https://t.example/a'', page = None, response = Map.empty\<rparr>"
      and requests_get = "\<lambda>u h t. Returned \<lparr>status_code = 302, reason = ''Found'', content = ''x''\<rparr>"
      and resp = "\<lparr>status_code = 302, reason = ''Found'', content = ''x''\<rparr>" and c = 302]
  by simp




section \<open>Claims about \<^verbatim>\<open>get_list_by_xpath\<close> and the instance\<close>

text \<open>
  Claim C7, amended: \<^verbatim>\<open>get_list_by_xpath\<close> returns a list when the page is set, the
  path evaluates to a list of matches or to a string, and \<^verbatim>\<open>trim\<close> returns a text for
  each match. A path with no match gives the empty list; with \<^verbatim>\<open>remove_empty\<close> true the
  result is the matches, trimmed, without those that trim to the empty string; with
  \<^verbatim>\<open>remove_empty\<close> false or \<^verbatim>\<open>None\<close> every trimmed match is kept; a string is handled as
  the list of its characters. In every other case the method raises, as no line of it
  handles an exception: \<^verbatim>\<open>AttributeError\<close> when the page is not set, the exception of the
  engine when the path cannot be evaluated, \<^verbatim>\<open>TypeError\<close> when the path evaluates to a
  number or a boolean, and the exception of \<^verbatim>\<open>trim\<close> on the first match on which it
  raises.
\<close>

theorem get_list_by_xpath_result:
  "(page_xpath self xpath = Inr (Matches []) \<longrightarrow>
      fst (get_list_by_xpath trim xpath remove_empty self) = Inr []) \<and>
   (page_xpath self xpath = Inr (Matches ms) \<and> (\<forall>m \<in> set ms. trim m = Inr (f m)) \<longrightarrow>
      fst (get_list_by_xpath trim xpath (Some True) self) =
        Inr (filter (\<lambda>s. s \<noteq> []) (map f ms)) \<and>
      fst (get_list_by_xpath trim xpath (Some False) self) = Inr (map f ms) \<and>
      fst (get_list_by_xpath trim xpath None self) = Inr (map f ms)) \<and>
   (page_xpath self xpath = Inr (StringResult s) \<and> (\<forall>c \<in> set s. trim (Text [c]) = Inr (g c)) \<longrightarrow>
      fst (get_list_by_xpath trim xpath (Some True) self) =
        Inr (filter (\<lambda>s. s \<noteq> []) (map g s)) \<and>
      fst (get_list_by_xpath trim xpath (Some False) self) = Inr (map g s) \<and>
      fst (get_list_by_xpath trim xpath None self) = Inr (map g s)) \<and>
   (page self = None \<longrightarrow>
      fst (get_list_by_xpath trim xpath remove_empty self) = Inl AttributeError) \<and>
   (page_xpath self xpath = Inl err \<longrightarrow>
      fst (get_list_by_xpath trim xpath remove_empty self) = Inl err) \<and>
   (page_xpath self xpath = Inr (NumberResult x) \<or>
    page_xpath self xpath = Inr (BooleanResult b) \<longrightarrow>
      fst (get_list_by_xpath trim xpath remove_empty self) = Inl TypeError) \<and>
   (page_xpath self xpath = Inr (Matches (before @ m # after)) \<and>
    (\<forall>m' \<in> set before. trim m' = Inr (f m')) \<and> trim m = Inl err \<longrightarrow>
      fst (get_list_by_xpath trim xpath remove_empty self) = Inl err)"
proof -
  have none: "fst (get_list_by_xpath trim xpath remove_empty self) = Inr []"
    if "page_xpath self xpath = Inr (Matches [])"
    using that by (simp add: get_list_by_xpath_def iterate_result_def)
  have matches: "fst (get_list_by_xpath trim xpath (Some True) self) =
        Inr (filter (\<lambda>s. s \<noteq> []) (map f ms)) \<and>
      fst (get_list_by_xpath trim xpath (Some False) self) = Inr (map f ms) \<and>
      fst (get_list_by_xpath trim xpath None self) = Inr (map f ms)"
    if "page_xpath self xpath = Inr (Matches ms)" and "\<forall>m \<in> set ms. trim m = Inr (f m)"
    using that
    by (simp add: get_list_by_xpath_def iterate_result_def
        trim_all_total [where f = f] trim_nonempty_total [where f = f])
  have str: "fst (get_list_by_xpath trim xpath (Some True) self) =
        Inr (filter (\<lambda>s. s \<noteq> []) (map g s)) \<and>
      fst (get_list_by_xpath trim xpath (Some False) self) = Inr (map g s) \<and>
      fst (get_list_by_xpath trim xpath None self) = Inr (map g s)"
    if p: "page_xpath self xpath = Inr (StringResult s)"
      and t: "\<forall>c \<in> set s. trim (Text [c]) = Inr (g c)"
  proof -
    have a: "trim_all trim (map (\<lambda>c. Text [c]) s) = Inr (map g s)"
      using t by (induction s) auto
    have b: "trim_nonempty trim (map (\<lambda>c. Text [c]) s) = Inr (filter (\<lambda>s. s \<noteq> []) (map g s))"
      using t by (induction s) auto
    from p a b show ?thesis
      by (simp add: get_list_by_xpath_def iterate_result_def)
  qed
  have unset: "fst (get_list_by_xpath trim xpath remove_empty self) = Inl AttributeError"
    if "page self = None"
    using that by (simp add: get_list_by_xpath_def page_xpath_def)
  have engine: "fst (get_list_by_xpath trim xpath remove_empty self) = Inl err"
    if "page_xpath self xpath = Inl err"
    using that by (simp add: get_list_by_xpath_def)
  have scalar: "fst (get_list_by_xpath trim xpath remove_empty self) = Inl TypeError"
    if "page_xpath self xpath = Inr (NumberResult x) \<or>
        page_xpath self xpath = Inr (BooleanResult b)"
    using that by (auto simp: get_list_by_xpath_def iterate_result_def)
  have raises: "fst (get_list_by_xpath trim xpath remove_empty self) = Inl err"
    if p: "page_xpath self xpath = Inr (Matches (before @ m # after))"
      and t: "\<forall>m' \<in> set before. trim m' = Inr (f m')" and e: "trim m = Inl err"
  proof -
    have a: "trim_all trim (before @ m # after) = Inl err"
      using t e by (induction before) auto
    have b: "trim_nonempty trim (before @ m # after) = Inl err"
      using t e by (induction before) auto
    from p a b show ?thesis
      by (simp add: get_list_by_xpath_def iterate_result_def)
  qed
  from none matches str unset engine scalar raises show ?thesis
    by blast
qed

text \<open>
  C7 at a path with no match, at the matches \<open>'' a ''\<close>, \<open>''  ''\<close>, \<open>''b''\<close>, at the string
  \<open>''a b''\<close>, and at a list whose second match is an element node.
\<close>

theorem get_list_by_xpath_result_witness:
  "fst (get_list_by_xpath strip_text ''//a'' (Some True)
          \<lparr>URL = ''u'', page = Some (\<lambda>x. Inr (Matches [])), response = Map.empty\<rparr>) = Inr [] \<and>
   fst (get_list_by_xpath strip_text ''//a'' (Some True)
          \<lparr>URL = ''u'', page = Some (\<lambda>x. Inr (Matches [Text '' a '', Text ''  '', Text ''b''])),
           response = Map.empty\<rparr>) =
     Inr [''a'', ''b''] \<and>
   fst (get_list_by_xpath strip_text ''//a'' (Some False)
          \<lparr>URL = ''u'', page = Some (\<lambda>x. Inr (Matches [Text '' a '', Text ''  '', Text ''b''])),
           response = Map.empty\<rparr>) =
     Inr [''a'', '''', ''b''] \<and>
   fst (get_list_by_xpath strip_text ''string(//a)'' (Some True)
          \<lparr>URL = ''u'', page = Some (\<lambda>x. Inr (StringResult ''a b'')),
           response = Map.empty\<rparr>) =
     Inr [''a'', ''b''] \<and>
   fst (get_list_by_xpath strip_text ''//a'' (Some True)
          \<lparr>URL = ''u'', page = Some (\<lambda>x. Inr (Matches [Text ''a'', Node 0, Text ''b''])),
           response = Map.empty\<rparr>) =
     Inl AttributeError"
proof -
  let ?E = "\<lparr>URL = ''u'', page = Some (\<lambda>x. Inr (Matches [])), response = Map.empty\<rparr>"
  let ?A = "\<lparr>URL = ''u'',
           page = Some (\<lambda>x. Inr (Matches [Text '' a '', Text ''  '', Text ''b''])),
           response = Map.empty\<rparr>"
  let ?S = "\<lparr>URL = ''u'', page = Some (\<lambda>x. Inr (StringResult ''a b'')),
           response = Map.empty\<rparr>"
  let ?N = "\<lparr>URL = ''u'', page = Some (\<lambda>x. Inr (Matches [Text ''a'', Node 0, Text ''b''])),
           response = Map.empty\<rparr>"
  let ?f = "\<lambda>m. case m of Text s \<Rightarrow> strip s | Node n \<Rightarrow> []"
  have E: "fst (get_list_by_xpath strip_text ''//a'' (Some True) ?E) = Inr []"
    using get_list_by_xpath_result [where self = ?E and xpath = "''//a''"
        and trim = strip_text and remove_empty = "Some True"]
    by (simp add: page_xpath_def)
  have A: "fst (get_list_by_xpath strip_text ''//a'' (Some True) ?A) = Inr [''a'', ''b''] \<and>
      fst (get_list_by_xpath strip_text ''//a'' (Some False) ?A) = Inr [''a'', '''', ''b'']"
    using get_list_by_xpath_result [where self = ?A and xpath = "''//a''"
        and trim = strip_text and ms = "[Text '' a '', Text ''  '', Text ''b'']" and f = ?f]
    by (simp add: page_xpath_def strip_text_def strip_def isspace_def)
  have S: "fst (get_list_by_xpath strip_text ''string(//a)'' (Some True) ?S) =
      Inr [''a'', ''b'']"
    using get_list_by_xpath_result [where self = ?S and xpath = "''string(//a)''"
        and trim = strip_text and s = "''a b''" and g = "\<lambda>c. strip [c]"]
    by (simp add: page_xpath_def strip_text_def strip_def isspace_def)
  have N: "fst (get_list_by_xpath strip_text ''//a'' (Some True) ?N) = Inl AttributeError"
    using get_list_by_xpath_result [where self = ?N and xpath = "''//a''"
        and trim = strip_text and remove_empty = "Some True" and before = "[Text ''a'']"
        and m = "Node 0" and after = "[Text ''b'']" and f = ?f and err = AttributeError]
    by (simp add: page_xpath_def strip_text_def)
  from E A S N show ?thesis
    by simp
qed

text \<open>
  Claim C7 as stated, for every path, fails where the path computes a number: the loop
  over the \<^verbatim>\<open>float\<close> raises \<^verbatim>\<open>TypeError\<close>. It fails as well for a path that the engine
  rejects, and on an instance whose page has not been set.
\<close>

theorem get_list_by_xpath_raises:
  "fst (get_list_by_xpath strip_text ''count(//a)'' (Some True)
          \<lparr>URL = ''u'', page = Some (\<lambda>x. Inr (NumberResult (Finite 3))),
           response = Map.empty\<rparr>) = Inl TypeError \<and>
   fst (get_list_by_xpath strip_text ''//a['' (Some True)
          \<lparr>URL = ''u'', page = Some (\<lambda>x. Inl (XPathEvalError ''Invalid expression'')),
           response = Map.empty\<rparr>) = Inl (XPathEvalError ''Invalid expression'') \<and>
   fst (get_list_by_xpath strip_text ''//a'' (Some True)
          \<lparr>URL = ''u'', page = None, response = Map.empty\<rparr>) = Inl AttributeError"
  by (simp add: get_list_by_xpath_def page_xpath_def iterate_result_def)

text \<open>
  Claim C10: each of the four extraction methods returns the instance it was given,
  with \<^verbatim>\<open>URL\<close>, \<^verbatim>\<open>page\<close> and \<^verbatim>\<open>response\<close> unchanged, whether its result is a value or an
  exception.
\<close>

theorem extraction_leaves_instance_unchanged:
  "snd (get_list_by_xpath trim xpath remove_empty self) = self \<and>
   snd (get_text_by_xpath trim xpath pos iloc iloc_from iloc_to join_str self) = self \<and>
   snd (get_last_page_number trim pagination xpath_base self) = self \<and>
   snd (raise_exception_if_not_found trim xpath self) = self"
proof -
  have l: "snd (get_list_by_xpath trim xpath remove_empty self) = self"
    by (simp add: get_list_by_xpath_def split: sum.splits)
  have t: "snd (get_text_by_xpath trim xpath pos iloc iloc_from iloc_to join_str self) = self"
    by (rule get_text_frame)
  have p: "snd (get_last_page_number trim pagination xpath_base self) = self"
    unfolding get_last_page_number_def by (rule last_page_loop_frame)
  obtain r s1 where g: "get_text_by_xpath trim xpath 0 None None None None self = (r, s1)"
    by (cases "get_text_by_xpath trim xpath 0 None None None None self")
  with get_text_frame [of trim xpath 0 None None None None self] have "s1 = self"
    by simp
  with g have "snd (raise_exception_if_not_found trim xpath self) = self"
    by (simp add: raise_exception_if_not_found_def split: sum.splits)
  with l t p show ?thesis
    by blast
qed

section \<open>Claims about \<^verbatim>\<open>get_last_page_number\<close>\<close>

text \<open>
  The two claims below are stated for locators whose query results are lists of text
  matches (the two locators select attribute nodes), and for a \<^verbatim>\<open>trim\<close> that returns a
  text \<open>f s\<close> for every text \<open>s\<close>, such that a text that is not empty after trimming stays
  so when trimmed again. Then the text that \<^verbatim>\<open>get_text_by_xpath\<close> returns for a locator
  is never the empty string, so the test \<^verbatim>\<open>if url_page\<close> of line 154 is the test for a
  text that is not \<^verbatim>\<open>None\<close>.
\<close>

text \<open>
  Claim C6: \<^verbatim>\<open>get_last_page_number\<close> asks for the text of the last-page locator first and
  of the active-page locator second, each appended to \<^verbatim>\<open>xpath_base\<close>. For the first that
  yields a text, the result is \<^verbatim>\<open>int\<close> of the part of the text after its final \<open>=\<close> and,
  within that part, after its final \<open>/\<close>; when that part is a text of decimal digits, the
  result is the number it denotes; when neither locator yields a text the result is 1.
\<close>

theorem get_last_page_number_locators:
  assumes "\<forall>s. trim (Text s) = Inr (f s)"
    and "\<forall>s. f s \<noteq> [] \<longrightarrow> f (f s) \<noteq> []"
    and "page_xpath self (xpath_base @ PAGE_NUMBER_LAST pagination) =
           Inr (Matches (map Text ms_last))"
    and "page_xpath self (xpath_base @ PAGE_NUMBER_ACTIVE pagination) =
           Inr (Matches (map Text ms_active))"
    and "r_last = fst (get_text_by_xpath trim (xpath_base @ PAGE_NUMBER_LAST pagination)
                     0 None None None None self)"
    and "r_active = fst (get_text_by_xpath trim (xpath_base @ PAGE_NUMBER_ACTIVE pagination)
                     0 None None None None self)"
  shows "(\<exists>t1 t2. r_last = Inr t1 \<and> r_active = Inr t2) \<and>
         (\<forall>t. r_last = Inr (Some t) \<longrightarrow>
            fst (get_last_page_number trim pagination xpath_base self) =
              py_int (after_last CHR ''/'' (after_last CHR ''='' t))) \<and>
         (\<forall>t. r_last = Inr None \<and> r_active = Inr (Some t) \<longrightarrow>
            fst (get_last_page_number trim pagination xpath_base self) =
              py_int (after_last CHR ''/'' (after_last CHR ''='' t))) \<and>
         (r_last = Inr None \<and> r_active = Inr None \<longrightarrow>
            fst (get_last_page_number trim pagination xpath_base self) = Inr 1) \<and>
         (\<forall>t. (r_last = Inr (Some t) \<or> r_last = Inr None \<and> r_active = Inr (Some t)) \<and>
              decimal_text (after_last CHR ''/'' (after_last CHR ''='' t)) \<longrightarrow>
            fst (get_last_page_number trim pagination xpath_base self) =
              Inr (int (decimal_value (after_last CHR ''/'' (after_last CHR ''='' t)))))"
proof -
  from last_page_number_lists [OF assms(1-4)] assms(5,6) obtain t1 t2 where
    r: "r_last = Inr t1" "r_active = Inr t2" and
    res: "fst (get_last_page_number trim pagination xpath_base self) =
       (case t1 of
          Some t \<Rightarrow> py_int (after_last CHR ''/'' (after_last CHR ''='' t))
        | None \<Rightarrow>
            (case t2 of
               Some t \<Rightarrow> py_int (after_last CHR ''/'' (after_last CHR ''='' t))
             | None \<Rightarrow> Inr 1))"
    by auto
  have a: "\<exists>t1 t2. r_last = Inr t1 \<and> r_active = Inr t2"
    using r by simp
  have b: "fst (get_last_page_number trim pagination xpath_base self) =
      py_int (after_last CHR ''/'' (after_last CHR ''='' t))"
    if "r_last = Inr (Some t)" for t
    using that r res by simp
  have c: "fst (get_last_page_number trim pagination xpath_base self) =
      py_int (after_last CHR ''/'' (after_last CHR ''='' t))"
    if "r_last = Inr None \<and> r_active = Inr (Some t)" for t
    using that r res by simp
  have d: "fst (get_last_page_number trim pagination xpath_base self) = Inr 1"
    if "r_last = Inr None \<and> r_active = Inr None"
    using that r res by simp
  have e: "fst (get_last_page_number trim pagination xpath_base self) =
      Inr (int (decimal_value (after_last CHR ''/'' (after_last CHR ''='' t))))"
    if "(r_last = Inr (Some t) \<or> r_last = Inr None \<and> r_active = Inr (Some t)) \<and>
        decimal_text (after_last CHR ''/'' (after_last CHR ''='' t))" for t
    using that b [of t] c [of t] by (auto simp: py_int_decimal)
  from a b c d e show ?thesis
    by blast
qed

text \<open>
  C6 at three pages: the last-page locator matches the address of the specification's
  example and yields 7; only the active-page locator matches and yields 3; neither
  matches and the result is 1.
\<close>

theorem get_last_page_number_locators_witness:
  "fst (get_last_page_number strip_text \<lparr>PAGE_NUMBER_LAST = ''//li[1]//@href'',
          PAGE_NUMBER_ACTIVE = ''//li[2]//@href''\<rparr> ''''
          \<lparr>URL = ''u'',
           page = Some (\<lambda>x. if x = ''//li[1]//@href''
                        then Inr (Matches [Text ''/a/page/Spielplan/saison_id/2023?page=7''])
                        else Inr (Matches [Text ''/a/page/3''])),
           response = Map.empty\<rparr>) = Inr 7 \<and>
   fst (get_last_page_number strip_text \<lparr>PAGE_NUMBER_LAST = ''//li[1]//@href'',
          PAGE_NUMBER_ACTIVE = ''//li[2]//@href''\<rparr> ''''
          \<lparr>URL = ''u'',
           page = Some (\<lambda>x. if x = ''//li[2]//@href''
                        then Inr (Matches [Text ''/a/page/3'']) else Inr (Matches [])),
           response = Map.empty\<rparr>) = Inr 3 \<and>
   fst (get_last_page_number strip_text \<lparr>PAGE_NUMBER_LAST = ''//li[1]//@href'',
          PAGE_NUMBER_ACTIVE = ''//li[2]//@href''\<rparr> ''''
          \<lparr>URL = ''u'', page = Some (\<lambda>x. Inr (Matches [])), response = Map.empty\<rparr>) = Inr 1"
proof -
  let ?P = "\<lparr>PAGE_NUMBER_LAST = ''//li[1]//@href'', PAGE_NUMBER_ACTIVE = ''//li[2]//@href''\<rparr>"
  let ?A = "\<lparr>URL = ''u'',
           page = Some (\<lambda>x. if x = ''//li[1]//@href''
                        then Inr (Matches [Text ''/a/page/Spielplan/saison_id/2023?page=7''])
                        else Inr (Matches [Text ''/a/page/3''])),
           response = Map.empty\<rparr>"
  let ?B = "\<lparr>URL = ''u'',
           page = Some (\<lambda>x. if x = ''//li[2]//@href''
                        then Inr (Matches [Text ''/a/page/3'']) else Inr (Matches [])),
           response = Map.empty\<rparr>"
  let ?C = "\<lparr>URL = ''u'', page = Some (\<lambda>x. Inr (Matches [])), response = Map.empty\<rparr>"
  have s7: "strip ''/a/page/Spielplan/saison_id/2023?page=7'' =
      ''/a/page/Spielplan/saison_id/2023?page=7''"
    by (simp add: strip_def isspace_def)
  have s3: "strip ''/a/page/3'' = ''/a/page/3''"
    by (simp add: strip_def isspace_def)
  have k7: "after_last CHR ''/'' (after_last CHR ''=''
      ''/a/page/Spielplan/saison_id/2023?page=7'') = ''7''"
    by (simp add: after_last_def)
  have k3: "after_last CHR ''/'' (after_last CHR ''='' ''/a/page/3'') = ''3''"
    by (simp add: after_last_def)
  have d7: "decimal_text ''7'' \<and> decimal_value ''7'' = 7"
    by (simp add: decimal_text_def decimal_value_def isdigit_def max_str_digits_def)
  have t7: "py_int ''7'' = Inr 7"
    by (simp add: py_int_def int_strip_def int_isspace_def isdigit_def max_str_digits_def)
  have t3: "py_int ''3'' = Inr 3"
    by (simp add: py_int_def int_strip_def int_isspace_def isdigit_def max_str_digits_def)
  have a1: "page_xpath ?A ('''' @ PAGE_NUMBER_LAST ?P) =
      Inr (Matches (map Text [''/a/page/Spielplan/saison_id/2023?page=7'']))"
    by (simp add: page_xpath_def)
  have a2: "page_xpath ?A ('''' @ PAGE_NUMBER_ACTIVE ?P) =
      Inr (Matches (map Text [''/a/page/3'']))"
    by (simp add: page_xpath_def)
  have ra1: "Inr (Some ''/a/page/Spielplan/saison_id/2023?page=7'') =
      fst (get_text_by_xpath strip_text ('''' @ PAGE_NUMBER_LAST ?P) 0 None None None None ?A)"
    unfolding get_text_default_text [OF strip_text_Text a1] by (simp add: s7)
  have ra2: "Inr (Some ''/a/page/3'') =
      fst (get_text_by_xpath strip_text ('''' @ PAGE_NUMBER_ACTIVE ?P) 0 None None None None ?A)"
    unfolding get_text_default_text [OF strip_text_Text a2] by (simp add: s3)
  have A: "fst (get_last_page_number strip_text ?P '''' ?A) = Inr 7"
    using get_last_page_number_locators [OF strip_text_Text strip_trim_law a1 a2 ra1 ra2] k7 d7 t7
    by simp
  have b1: "page_xpath ?B ('''' @ PAGE_NUMBER_LAST ?P) = Inr (Matches (map Text []))"
    by (simp add: page_xpath_def)
  have b2: "page_xpath ?B ('''' @ PAGE_NUMBER_ACTIVE ?P) =
      Inr (Matches (map Text [''/a/page/3'']))"
    by (simp add: page_xpath_def)
  have rb1: "Inr None =
      fst (get_text_by_xpath strip_text ('''' @ PAGE_NUMBER_LAST ?P) 0 None None None None ?B)"
    unfolding get_text_default_text [OF strip_text_Text b1] by simp
  have rb2: "Inr (Some ''/a/page/3'') =
      fst (get_text_by_xpath strip_text ('''' @ PAGE_NUMBER_ACTIVE ?P) 0 None None None None ?B)"
    unfolding get_text_default_text [OF strip_text_Text b2] by (simp add: s3)
  have B: "fst (get_last_page_number strip_text ?P '''' ?B) = Inr 3"
    using get_last_page_number_locators [OF strip_text_Text strip_trim_law b1 b2 rb1 rb2] k3 t3
    by simp
  have c1: "page_xpath ?C ('''' @ PAGE_NUMBER_LAST ?P) = Inr (Matches (map Text []))"
    by (simp add: page_xpath_def)
  have c2: "page_xpath ?C ('''' @ PAGE_NUMBER_ACTIVE ?P) = Inr (Matches (map Text []))"
    by (simp add: page_xpath_def)
  have rc1: "Inr None =
      fst (get_text_by_xpath strip_text ('''' @ PAGE_NUMBER_LAST ?P) 0 None None None None ?C)"
    unfolding get_text_default_text [OF strip_text_Text c1] by simp
  have rc2: "Inr None =
      fst (get_text_by_xpath strip_text ('''' @ PAGE_NUMBER_ACTIVE ?P) 0 None None None None ?C)"
    unfolding get_text_default_text [OF strip_text_Text c2] by simp
  have C: "fst (get_last_page_number strip_text ?P '''' ?C) = Inr 1"
    using get_last_page_number_locators [OF strip_text_Text strip_trim_law c1 c2 rc1 rc2]
    by simp
  from A B C show ?thesis
    by simp
qed

text \<open>
  Claim C4, amended: when the text of the first locator that yields one does not end,
  after its final \<open>=\<close> and \<open>/\<close>, in a token that \<^verbatim>\<open>int\<close> accepts, the call raises
  \<^verbatim>\<open>ValueError\<close>, which no handler catches; a token with more than 4300 digits is among
  those that \<^verbatim>\<open>int\<close> does not accept.
\<close>

theorem malformed_page_text_raises_ValueError:
  assumes "\<forall>s. trim (Text s) = Inr (f s)"
    and "\<forall>s. f s \<noteq> [] \<longrightarrow> f (f s) \<noteq> []"
    and "page_xpath self (xpath_base @ PAGE_NUMBER_LAST pagination) =
           Inr (Matches (map Text ms_last))"
    and "page_xpath self (xpath_base @ PAGE_NUMBER_ACTIVE pagination) =
           Inr (Matches (map Text ms_active))"
    and "r_last = fst (get_text_by_xpath trim (xpath_base @ PAGE_NUMBER_LAST pagination)
                     0 None None None None self)"
    and "r_active = fst (get_text_by_xpath trim (xpath_base @ PAGE_NUMBER_ACTIVE pagination)
                     0 None None None None self)"
    and "(r_last = Inr (Some t)) \<or> (r_last = Inr None \<and> r_active = Inr (Some t))"
    and "(\<forall>n. py_int (after_last CHR ''/'' (after_last CHR ''='' t)) \<noteq> Inr n) \<or>
         max_str_digits < length (filter isdigit (after_last CHR ''/'' (after_last CHR ''='' t)))"
  shows "fst (get_last_page_number trim pagination xpath_base self) = Inl ValueError"
proof -
  from last_page_number_lists [OF assms(1-4)] assms(5,6) obtain t1 t2 where
    r: "r_last = Inr t1" "r_active = Inr t2" and
    res: "fst (get_last_page_number trim pagination xpath_base self) =
       (case t1 of
          Some t \<Rightarrow> py_int (after_last CHR ''/'' (after_last CHR ''='' t))
        | None \<Rightarrow>
            (case t2 of
               Some t \<Rightarrow> py_int (after_last CHR ''/'' (after_last CHR ''='' t))
             | None \<Rightarrow> Inr 1))"
    by auto
  from assms(8) py_int_cases [of "after_last CHR ''/'' (after_last CHR ''='' t)"]
    py_int_limit [of "after_last CHR ''/'' (after_last CHR ''='' t)"]
  have "py_int (after_last CHR ''/'' (after_last CHR ''='' t)) = Inl ValueError"
    by auto
  with assms(7) r res show ?thesis
    by auto
qed

text \<open>
  C4 at three pages. With a prefix \<open>//div\<close>, the last-page locator matches nothing and the
  active-page locator yields a text whose token is \<open>x\<close>. With no prefix, the last-page
  locator yields a text whose token is the separator character 28 followed by the digit
  7: \<^verbatim>\<open>strip\<close> would remove the separator, \<^verbatim>\<open>int\<close> does not skip it. The third text ends in
  \<open>=\<close>, and its token is empty.
\<close>

theorem malformed_page_text_raises_ValueError_witness:
  "fst (get_last_page_number strip_text \<lparr>PAGE_NUMBER_LAST = ''//li[1]//@href'',
          PAGE_NUMBER_ACTIVE = ''//li[2]//@href''\<rparr> ''//div''
          \<lparr>URL = ''u'',
           page = Some (\<lambda>x. if x = ''//div//li[2]//@href''
                        then Inr (Matches [Text '' '', Text ''/a/b?page=1/x''])
                        else Inr (Matches [])),
           response = Map.empty\<rparr>) = Inl ValueError \<and>
   fst (get_last_page_number strip_text \<lparr>PAGE_NUMBER_LAST = ''//li[1]//@href'',
          PAGE_NUMBER_ACTIVE = ''//li[2]//@href''\<rparr> ''''
          \<lparr>URL = ''u'',
           page = Some (\<lambda>x. Inr (Matches [Text (''/x?page='' @ [CHR 0x1C, CHR ''7''])])),
           response = Map.empty\<rparr>) = Inl ValueError \<and>
   fst (get_last_page_number strip_text \<lparr>PAGE_NUMBER_LAST = ''//li[1]//@href'',
          PAGE_NUMBER_ACTIVE = ''//li[2]//@href''\<rparr> ''''
          \<lparr>URL = ''u'', page = Some (\<lambda>x. Inr (Matches [Text ''/x?page=''])),
           response = Map.empty\<rparr>) = Inl ValueError"
proof -
  let ?P = "\<lparr>PAGE_NUMBER_LAST = ''//li[1]//@href'', PAGE_NUMBER_ACTIVE = ''//li[2]//@href''\<rparr>"
  let ?A = "\<lparr>URL = ''u'',
           page = Some (\<lambda>x. if x = ''//div//li[2]//@href''
                        then Inr (Matches [Text '' '', Text ''/a/b?page=1/x''])
                        else Inr (Matches [])),
           response = Map.empty\<rparr>"
  let ?B = "\<lparr>URL = ''u'',
           page = Some (\<lambda>x. Inr (Matches [Text (''/x?page='' @ [CHR 0x1C, CHR ''7''])])),
           response = Map.empty\<rparr>"
  let ?C = "\<lparr>URL = ''u'', page = Some (\<lambda>x. Inr (Matches [Text ''/x?page=''])),
           response = Map.empty\<rparr>"
  have sa: "strip '' '' = '''' \<and> strip ''/a/b?page=1/x'' = ''/a/b?page=1/x''"
    by (simp add: strip_def isspace_def)
  have ka: "after_last CHR ''/'' (after_last CHR ''='' ''/a/b?page=1/x'') = ''x''"
    by (simp add: after_last_def)
  have ta: "\<forall>n. py_int ''x'' \<noteq> Inr n"
    by (simp add: py_int_def int_strip_def int_isspace_def isdigit_def)
  have a1: "page_xpath ?A (''//div'' @ PAGE_NUMBER_LAST ?P) = Inr (Matches (map Text []))"
    by (simp add: page_xpath_def)
  have a2: "page_xpath ?A (''//div'' @ PAGE_NUMBER_ACTIVE ?P) =
      Inr (Matches (map Text ['' '', ''/a/b?page=1/x'']))"
    by (simp add: page_xpath_def)
  have ra1: "Inr None =
      fst (get_text_by_xpath strip_text (''//div'' @ PAGE_NUMBER_LAST ?P)
             0 None None None None ?A)"
    unfolding get_text_default_text [OF strip_text_Text a1] by simp
  have ra2: "Inr (Some ''/a/b?page=1/x'') =
      fst (get_text_by_xpath strip_text (''//div'' @ PAGE_NUMBER_ACTIVE ?P)
             0 None None None None ?A)"
    unfolding get_text_default_text [OF strip_text_Text a2] by (simp add: sa)
  have A: "fst (get_last_page_number strip_text ?P ''//div'' ?A) = Inl ValueError"
    using malformed_page_text_raises_ValueError [OF strip_text_Text strip_trim_law a1 a2 ra1 ra2,
        where t = "''/a/b?page=1/x''"] ka ta
    by simp
  have sb: "strip (''/x?page='' @ [CHR 0x1C, CHR ''7'']) = ''/x?page='' @ [CHR 0x1C, CHR ''7'']"
    by (simp add: strip_def isspace_def)
  have kb: "after_last CHR ''/'' (after_last CHR ''='' (''/x?page='' @ [CHR 0x1C, CHR ''7''])) =
      [CHR 0x1C, CHR ''7'']"
    by (simp add: after_last_def)
  have tb: "\<forall>n. py_int [CHR 0x1C, CHR ''7''] \<noteq> Inr n"
    by (simp add: py_int_def int_strip_def int_isspace_def isdigit_def)
  have b1: "page_xpath ?B ('''' @ PAGE_NUMBER_LAST ?P) =
      Inr (Matches (map Text [''/x?page='' @ [CHR 0x1C, CHR ''7'']]))"
    by (simp add: page_xpath_def)
  have b2: "page_xpath ?B ('''' @ PAGE_NUMBER_ACTIVE ?P) =
      Inr (Matches (map Text [''/x?page='' @ [CHR 0x1C, CHR ''7'']]))"
    by (simp add: page_xpath_def)
  have rb1: "Inr (Some (''/x?page='' @ [CHR 0x1C, CHR ''7''])) =
      fst (get_text_by_xpath strip_text ('''' @ PAGE_NUMBER_LAST ?P) 0 None None None None ?B)"
    unfolding get_text_default_text [OF strip_text_Text b1] using sb by simp
  have rb2: "Inr (Some (''/x?page='' @ [CHR 0x1C, CHR ''7''])) =
      fst (get_text_by_xpath strip_text ('''' @ PAGE_NUMBER_ACTIVE ?P) 0 None None None None ?B)"
    unfolding get_text_default_text [OF strip_text_Text b2] using sb by simp
  have B: "fst (get_last_page_number strip_text ?P '''' ?B) = Inl ValueError"
    using malformed_page_text_raises_ValueError [OF strip_text_Text strip_trim_law b1 b2 rb1 rb2,
        where t = "''/x?page='' @ [CHR 0x1C, CHR ''7'']"] kb tb
    by simp
  have sc: "strip ''/x?page='' = ''/x?page=''"
    by (simp add: strip_def isspace_def)
  have kc: "after_last CHR ''/'' (after_last CHR ''='' ''/x?page='') = ''''"
    by (simp add: after_last_def)
  have tc: "\<forall>n. py_int '''' \<noteq> Inr n"
    by (simp add: py_int_def int_strip_def)
  have c1: "page_xpath ?C ('''' @ PAGE_NUMBER_LAST ?P) = Inr (Matches (map Text [''/x?page='']))"
    by (simp add: page_xpath_def)
  have c2: "page_xpath ?C ('''' @ PAGE_NUMBER_ACTIVE ?P) =
      Inr (Matches (map Text [''/x?page='']))"
    by (simp add: page_xpath_def)
  have rc1: "Inr (Some ''/x?page='') =
      fst (get_text_by_xpath strip_text ('''' @ PAGE_NUMBER_LAST ?P) 0 None None None None ?C)"
    unfolding get_text_default_text [OF strip_text_Text c1] by (simp add: sc)
  have rc2: "Inr (Some ''/x?page='') =
      fst (get_text_by_xpath strip_text ('''' @ PAGE_NUMBER_ACTIVE ?P) 0 None None None None ?C)"
    unfolding get_text_default_text [OF strip_text_Text c2] by (simp add: sc)
  have C: "fst (get_last_page_number strip_text ?P '''' ?C) = Inl ValueError"
    using malformed_page_text_raises_ValueError [OF strip_text_Text strip_trim_law c1 c2 rc1 rc2,
        where t = "''/x?page=''"] kc tc
    by simp
  from A B C show ?thesis
    by simp
qed

text \<open>
  Claim C4 as stated puts this failure in the \<^verbatim>\<open>IndexError\<close> category: on a page whose
  last-page link ends in \<open>page=x\<close> the exception raised is \<^verbatim>\<open>ValueError\<close>, and it is not an
  \<^verbatim>\<open>IndexError\<close>.
\<close>

theorem malformed_page_text_is_ValueError:
  "fst (get_last_page_number strip_text \<lparr>PAGE_NUMBER_LAST = ''//li[1]//@href'',
          PAGE_NUMBER_ACTIVE = ''//li[2]//@href''\<rparr> ''''
          \<lparr>URL = ''u'',
           page = Some (\<lambda>x. if x = ''//li[1]//@href''
                        then Inr (Matches [Text ''/a/b?page=x'']) else Inr (Matches [])),
           response = Map.empty\<rparr>) = Inl ValueError \<and>
   fst (get_last_page_number strip_text \<lparr>PAGE_NUMBER_LAST = ''//li[1]//@href'',
          PAGE_NUMBER_ACTIVE = ''//li[2]//@href''\<rparr> ''''
          \<lparr>URL = ''u'',
           page = Some (\<lambda>x. if x = ''//li[1]//@href''
                        then Inr (Matches [Text ''/a/b?page=x'']) else Inr (Matches [])),
           response = Map.empty\<rparr>) \<noteq> Inl IndexError"
  by (simp add: get_last_page_number_def get_text_by_xpath_def page_xpath_def truthy_def
      shape_element_def getitem_def index_seq_def page_token_def py_int_def int_strip_def
      int_isspace_def isdigit_def strip_text_def strip_def isspace_def)

end
